theory Spec2Isabelle
  imports Main "HOL-Library.AList"
begin

section \<open>TableViewerModel: the fetch / cache / edit / reconcile state machine\<close>

text \<open>
  The program is the TypeScript class \<open>TableViewerModel\<close>. Its mutable fields become one
  record that every operation takes and returns. A rejected promise or a \<open>throw\<close> is a
  value of type \<open>exn\<close>. The two remote collaborators (\<open>requestDataAsync\<close>,
  \<open>saveChanges\<close>) and the retry dialog are inputs: each operation is given the answer the
  collaborator produces, and records the call it makes in a log. An \<open>async\<close> method is
  split at its \<open>await\<close>: the part before it, and the part that resumes with the answer.
\<close>

subsection \<open>Rows, columns, results, errors\<close>

type_synonym TableRow = "string list"

text \<open>Modelled from the spec: the declaration of \<open>TableColumn\<close> is not part of the sources;
  the spec gives a column a name, a semantic type and an ordinal position.\<close>

record TableColumn =
  columnName :: string
  columnKind :: string
  columnPosition :: nat

text \<open>Modelled from the spec: \<open>RowDiff\<close> is declared in \<open>TableDataModel/EditedRow\<close>, which is not
  part of the sources; the spec gives it the fields \<open>rowIndex\<close>, \<open>source\<close> and \<open>edited\<close>.\<close>

record RowDiff =
  rowIndex :: nat
  source :: TableRow
  edited :: TableRow

text \<open>\<open>SomeTableRows\<close> is built with \<open>new Map()\<close> and \<open>set(rowIndex, row)\<close> and read with
  \<open>forEach((row, rowNumber) => ...)\<close>: a JavaScript \<open>Map\<close> from row number to row. \<open>Map.set\<close>
  replaces the value of a key that is present, in place, and appends a new key at the end;
  \<open>forEach\<close> visits the entries in that order. This is \<^const>\<open>AList.update\<close> on an
  association list.\<close>

type_synonym SomeTableRows = "(nat \<times> TableRow) list"

record IRequestDataResult =
  res_rows :: "TableRow list"
  res_columns :: "TableColumn list"
  res_isFullyLoaded :: bool
  res_duration :: "int option"
  res_statusMessage :: string

record IRequestedData =
  data_rows :: "TableRow list"
  data_columns :: "TableColumn list"
  data_isFullyLoaded :: bool

text \<open>Modelled from the spec: \<open>GQLError\<close> is declared in the SDK, which is not part of the
  sources. The spec's structured remote error carries a user-facing message and an optional
  detail payload; every other thrown value is a generic error with a name and a message.\<close>

datatype exn =
  GQLError (errorText: string) (detail: "string option")
| Error (name: string) (message: string)

fun exn_hasDetails :: "exn \<Rightarrow> bool" where
  "exn_hasDetails (GQLError t d) = (d \<noteq> None)"
| "exn_hasDetails (Error n m) = False"

fun isGQLError :: "exn \<Rightarrow> bool" where
  "isGQLError (GQLError t d) = True"
| "isGQLError (Error n m) = False"

subsection \<open>The row and column store\<close>

text \<open>Modelled from the spec: the class \<open>TableDataModel\<close> is not part of the sources, only its
  calls are. The spec describes an ordered, sparse-capable table of rows; a position that was
  never written is \<open>None\<close>, as a hole of a JavaScript array is.\<close>

record TableDataModel =
  rows :: "TableRow option list"
  columns :: "TableColumn list"

text \<open>Modelled from the spec: a new store has no rows and no columns.\<close>

definition empty_TableDataModel :: TableDataModel where
  "empty_TableDataModel = \<lparr>rows = [], columns = []\<rparr>"

text \<open>Modelled from the spec: \<open>getRows()\<close> and \<open>getColumns()\<close> are not in the spec's contract;
  the view model reads the row array and its length, and the column array and its length,
  through them.\<close>

definition getRows :: "TableDataModel \<Rightarrow> TableRow option list" where
  "getRows m = rows m"

definition getColumns :: "TableDataModel \<Rightarrow> TableColumn list" where
  "getColumns m = columns m"

text \<open>Modelled from the spec: the store's \<open>isEmpty()\<close>.\<close>

definition store_isEmpty :: "TableDataModel \<Rightarrow> bool" where
  "store_isEmpty m = (rows m = [])"

text \<open>Modelled from the spec: \<open>isChunkLoaded(offset, count)\<close> is true iff every row index in
  \<open>[offset, offset + count)\<close> has been materialized.\<close>

definition isChunkLoaded :: "TableDataModel \<Rightarrow> nat \<Rightarrow> nat \<Rightarrow> bool" where
  "isChunkLoaded m offset count =
     list_all (\<lambda>i. i < length (rows m) \<and> rows m ! i \<noteq> None) [offset ..< offset + count]"

text \<open>Modelled from the spec: \<open>getChunk(offset, count)\<close> returns the materialized rows in the
  range.\<close>

definition getChunk :: "TableDataModel \<Rightarrow> nat \<Rightarrow> nat \<Rightarrow> TableRow list" where
  "getChunk m offset count = List.map_filter id (take count (drop offset (rows m)))"

text \<open>Modelled from the spec: a write of one row at an index, as the assignment
  \<open>rows[i] = r\<close> of JavaScript does it: inside the array it overwrites, beyond it the array
  grows and the positions in between are holes.\<close>

definition write_row :: "nat \<Rightarrow> TableRow \<Rightarrow> TableRow option list \<Rightarrow> TableRow option list" where
  "write_row i r xs =
     (if i < length xs then xs[i := Some r]
      else xs @ replicate (i - length xs) None @ [Some r])"

fun write_rows_from :: "nat \<Rightarrow> TableRow list \<Rightarrow> TableRow option list \<Rightarrow> TableRow option list" where
  "write_rows_from p [] xs = xs"
| "write_rows_from p (r # rs) xs = write_rows_from (Suc p) rs (write_row p r xs)"

text \<open>Modelled from the spec: \<open>insertRows(position, rows)\<close> writes rows starting at
  \<open>position\<close>, extending the store if needed, and overwrites rows already present.\<close>

definition store_insertRows :: "TableDataModel \<Rightarrow> nat \<Rightarrow> TableRow list \<Rightarrow> TableDataModel" where
  "store_insertRows m position rs = m\<lparr>rows := write_rows_from position rs (rows m)\<rparr>"

text \<open>Modelled from the spec: \<open>pushRows(rows)\<close> appends at the current end.\<close>

definition store_pushRows :: "TableDataModel \<Rightarrow> TableRow list \<Rightarrow> TableDataModel" where
  "store_pushRows m rs = m\<lparr>rows := rows m @ map Some rs\<rparr>"

text \<open>Modelled from the spec: \<open>overWrite(columns)\<close> replaces the column schema.\<close>

definition overWrite :: "TableDataModel \<Rightarrow> TableColumn list \<Rightarrow> TableDataModel" where
  "overWrite m cs = m\<lparr>columns := cs\<rparr>"

text \<open>Modelled from the spec: \<open>updateRows(mapping)\<close> is a targeted overwrite, one row per entry
  of the mapping, in the mapping's order.\<close>

definition updateRows :: "TableDataModel \<Rightarrow> SomeTableRows \<Rightarrow> TableDataModel" where
  "updateRows m someRows = m\<lparr>rows := fold (\<lambda>(i, r). write_row i r) someRows (rows m)\<rparr>"

text \<open>Modelled from the spec: the store's \<open>resetData()\<close> clears all rows and the loaded-range
  tracking and leaves the columns untouched.\<close>

definition store_resetData :: "TableDataModel \<Rightarrow> TableDataModel" where
  "store_resetData m = m\<lparr>rows := []\<rparr>"

subsection \<open>The edit tracker\<close>

text \<open>Modelled from the spec: the class \<open>TableEditor\<close> is not part of the sources. Its state is
  the pending-edit set, one \<open>RowDiff\<close> per edited row, in a stable order. \<open>getChanges()\<close>
  returns the pending set as an array of its own: the callers read it after
  \<open>cancelChanges()\<close> has emptied the tracker.\<close>

type_synonym TableEditor = "RowDiff list"

text \<open>Modelled from the spec: \<open>getChanges()\<close> returns the pending set.\<close>

definition getChanges :: "TableEditor \<Rightarrow> RowDiff list" where
  "getChanges ed = ed"

text \<open>Modelled from the spec: \<open>cancelChanges()\<close> clears the pending set without writing
  anything back.\<close>

definition cancelChanges :: "TableEditor \<Rightarrow> TableEditor" where
  "cancelChanges ed = []"

text \<open>Modelled from the spec: \<open>editCellValue(row, col, value)\<close>. With no diff for the row, the
  current row is the \<open>source\<close> and \<open>edited\<close> is that row with the column replaced; with a
  diff, its \<open>edited\<close> row is updated. The store is read, never written. The spec does not say
  what an edit of a row that is not materialized does; here it records nothing.\<close>

fun edit_existing :: "nat \<Rightarrow> nat \<Rightarrow> string \<Rightarrow> RowDiff list \<Rightarrow> RowDiff list option" where
  "edit_existing row col v [] = None"
| "edit_existing row col v (d # ds) =
     (if rowIndex d = row then Some (d\<lparr>edited := (edited d)[col := v]\<rparr> # ds)
      else map_option ((#) d) (edit_existing row col v ds))"

definition editCellValue :: "TableDataModel \<Rightarrow> TableEditor \<Rightarrow> nat \<Rightarrow> nat \<Rightarrow> string \<Rightarrow> TableEditor" where
  "editCellValue m ed row col v =
     (case edit_existing row col v ed of
        Some ed' \<Rightarrow> ed'
      | None \<Rightarrow>
          (if row < length (rows m) then
             (case rows m ! row of
                Some r \<Rightarrow> ed @ [\<lparr>rowIndex = row, source = r, edited = r[col := v]\<rparr>]
              | None \<Rightarrow> ed)
           else ed))"

subsection \<open>The view model\<close>

text \<open>The calls made on \<open>agGridModel.actions\<close> (the grid widget's handle), and the calls made
  on the remote collaborators and on the dialog service, are recorded in the order they are
  made.\<close>

datatype grid_call =
  Call_changeChunkSize int
| Call_resetData
| Call_updateRowValue nat TableRow

datatype collaborator_call =
  Call_requestDataAsync nat nat
| Call_saveChanges "RowDiff list"
| Call_open_ErrorDialog string bool
| Call_open_ErrorDetailsDialog exn

record TableViewerModel =
  queryDuration :: int
  requestStatusMessage :: string
  errorMessage :: string
  hasDetails :: bool
  hasMoreRows :: bool
  isLoaderVisible :: bool
  chunkSize :: int
  exception :: "exn option"
  tableDataModel :: TableDataModel
  tableEditor :: TableEditor
  noLoaderWhileRequestingDataAsync :: bool
  initialRows :: "TableRow option list"
  initialColumns :: "TableColumn list"
  grid_chunkSize :: int
  actions :: bool
  grid_calls :: "grid_call list"
  collaborator_calls :: "collaborator_call list"

text \<open>\<open>fetchingSettings\<close>.\<close>

definition fetchMin :: int where "fetchMin = 1"
definition fetchMax :: int where "fetchMax = 5000"
definition fetchDefault :: int where "fetchDefault = 200"

text \<open>\<open>getDefaultRowsCount(count?)\<close>: the argument may be left out (\<open>None\<close>); \<open>count ? a : b\<close>
  takes \<open>b\<close> for a missing argument and for zero.\<close>

definition getDefaultRowsCount :: "int option \<Rightarrow> int" where
  "getDefaultRowsCount count =
     (case count of
        None \<Rightarrow> fetchDefault
      | Some c \<Rightarrow> if c \<noteq> 0 then max fetchMin (min c fetchMax) else fetchDefault)"

text \<open>A call on \<open>agGridModel.actions?.\<close> is made only when the widget has set the handle.\<close>

definition call_actions :: "grid_call list \<Rightarrow> TableViewerModel \<Rightarrow> TableViewerModel" where
  "call_actions cs s = (if actions s then s\<lparr>grid_calls := grid_calls s @ cs\<rparr> else s)"

definition updateChunkSize :: "TableViewerModel \<Rightarrow> int \<Rightarrow> TableViewerModel" where
  "updateChunkSize s v =
     (let s1 = s\<lparr>chunkSize := getDefaultRowsCount (Some v)\<rparr>
      in call_actions [Call_changeChunkSize (chunkSize s1)] s1)"

definition setChunkSize :: "TableViewerModel \<Rightarrow> int \<Rightarrow> TableViewerModel" where
  "setChunkSize s count = updateChunkSize s count"

definition getChunkSize :: "TableViewerModel \<Rightarrow> int" where
  "getChunkSize s = chunkSize s"

text \<open>The getters \<open>isEmpty\<close> and \<open>isFullyLoaded\<close>; the getter \<open>isLoaderVisible\<close> is the
  field itself.\<close>

definition isEmpty :: "TableViewerModel \<Rightarrow> bool" where
  "isEmpty s = store_isEmpty (tableDataModel s)"

definition isFullyLoaded :: "TableViewerModel \<Rightarrow> bool" where
  "isFullyLoaded s = (\<not> hasMoreRows s)"

text \<open>\<open>updateInfo(status, duration?)\<close>: \<open>duration || 0\<close> is 0 for a missing duration.\<close>

definition updateInfo :: "TableViewerModel \<Rightarrow> string \<Rightarrow> int option \<Rightarrow> TableViewerModel" where
  "updateInfo s status duration =
     s\<lparr>queryDuration := (case duration of None \<Rightarrow> 0 | Some d \<Rightarrow> d),
       requestStatusMessage := status\<rparr>"

definition insertRows :: "TableViewerModel \<Rightarrow> nat \<Rightarrow> TableRow list \<Rightarrow> bool \<Rightarrow> TableViewerModel" where
  "insertRows s position rs hasMore =
     (let isRowsAddition = length (getRows (tableDataModel s)) < position + length rs;
          s1 = s\<lparr>tableDataModel := store_insertRows (tableDataModel s) position rs\<rparr>
      in s1\<lparr>hasMoreRows := (if isRowsAddition then hasMore else hasMoreRows s1)\<rparr>)"

text \<open>\<open>pushRows\<close> is private and has no caller.\<close>

definition pushRows :: "TableViewerModel \<Rightarrow> TableRow list \<Rightarrow> bool \<Rightarrow> TableViewerModel" where
  "pushRows s rs hasMore =
     s\<lparr>tableDataModel := store_pushRows (tableDataModel s) rs, hasMoreRows := hasMore\<rparr>"

text \<open>\<open>cancelFetch\<close> has an empty body.\<close>

definition cancelFetch :: "TableViewerModel \<Rightarrow> TableViewerModel" where
  "cancelFetch s = s"

definition clearErrors :: "TableViewerModel \<Rightarrow> TableViewerModel" where
  "clearErrors s = s\<lparr>errorMessage := []\<rparr>"

definition showError :: "TableViewerModel \<Rightarrow> exn \<Rightarrow> TableViewerModel" where
  "showError s e =
     (let s1 = s\<lparr>exception := None, hasDetails := False\<rparr>
      in if isGQLError e
         then s1\<lparr>errorMessage := errorText e, exception := Some e, hasDetails := exn_hasDetails e\<rparr>
         else s1\<lparr>errorMessage := name e @ '': '' @ message e\<rparr>)"

definition resetData :: "TableViewerModel \<Rightarrow> TableViewerModel" where
  "resetData s =
     (let s1 = s\<lparr>tableDataModel := store_resetData (tableDataModel s)\<rparr>;
          s2 = call_actions [Call_resetData] s1
      in s2\<lparr>requestStatusMessage := [], queryDuration := 0, hasMoreRows := True,
            errorMessage := []\<rparr>)"

definition handleRefresh :: "TableViewerModel \<Rightarrow> TableViewerModel" where
  "handleRefresh s = resetData s"

text \<open>\<open>onShowDetails\<close> opens the details dialog when an exception is stored.\<close>

definition onShowDetails :: "TableViewerModel \<Rightarrow> TableViewerModel" where
  "onShowDetails s =
     (case exception s of
        Some e \<Rightarrow> s\<lparr>collaborator_calls := collaborator_calls s @ [Call_open_ErrorDetailsDialog e]\<rparr>
      | None \<Rightarrow> s)"

text \<open>The constructor: the field initialisers, then the optional initial state.\<close>

record ITableViewerModelInit =
  initialState :: "IRequestDataResult option"
  init_noLoaderWhileRequestingDataAsync :: bool

definition field_initialisers :: "bool \<Rightarrow> TableViewerModel" where
  "field_initialisers noLoader =
     \<lparr>queryDuration = 0, requestStatusMessage = [], errorMessage = [], hasDetails = False,
      hasMoreRows = True, isLoaderVisible = False, chunkSize = getDefaultRowsCount None,
      exception = None, tableDataModel = empty_TableDataModel, tableEditor = [],
      noLoaderWhileRequestingDataAsync = noLoader,
      initialRows = [], initialColumns = [], grid_chunkSize = getDefaultRowsCount None,
      actions = False, grid_calls = [], collaborator_calls = []\<rparr>"

definition new_TableViewerModel :: "ITableViewerModelInit \<Rightarrow> TableViewerModel" where
  "new_TableViewerModel init =
     (let s0 = field_initialisers (init_noLoaderWhileRequestingDataAsync init)
      in case initialState init of
           None \<Rightarrow> s0
         | Some st \<Rightarrow>
             (let s1 = insertRows s0 0 (res_rows st) (\<not> res_isFullyLoaded st);
                  s2 = s1\<lparr>tableDataModel := overWrite (tableDataModel s1) (res_columns st)\<rparr>;
                  s3 = updateInfo s2 (res_statusMessage st) (res_duration st)
              in s3\<lparr>initialRows := getRows (tableDataModel s3),
                    initialColumns := getColumns (tableDataModel s3)\<rparr>))"

text \<open>The grid widget sets \<open>agGridModel.actions\<close> when it attaches.\<close>

definition attach_actions :: "TableViewerModel \<Rightarrow> TableViewerModel" where
  "attach_actions s = s\<lparr>actions := True\<rparr>"

definition onCellEditingStopped :: "TableViewerModel \<Rightarrow> nat \<Rightarrow> nat \<Rightarrow> string \<Rightarrow> TableViewerModel" where
  "onCellEditingStopped s rowNumber colNumber v =
     s\<lparr>tableEditor := editCellValue (tableDataModel s) (tableEditor s) rowNumber colNumber v\<rparr>"

subsection \<open>Fetching a window\<close>

text \<open>The cache test at the head of \<open>onRequestData\<close>: the answer served from the store, if
  any.\<close>

definition onRequestData_cached :: "TableViewerModel \<Rightarrow> nat \<Rightarrow> nat \<Rightarrow> IRequestedData option" where
  "onRequestData_cached s rowOffset count =
     (if isChunkLoaded (tableDataModel s) rowOffset count \<or> isFullyLoaded s
      then Some \<lparr>data_rows = getChunk (tableDataModel s) rowOffset count,
                 data_columns = getColumns (tableDataModel s),
                 data_isFullyLoaded = isFullyLoaded s\<rparr>
      else None)"

text \<open>Up to the \<open>await\<close>: the loader flag is set and the remote fetch is called.\<close>

definition onRequestData_begin :: "TableViewerModel \<Rightarrow> nat \<Rightarrow> nat \<Rightarrow> TableViewerModel" where
  "onRequestData_begin s rowOffset count =
     s\<lparr>isLoaderVisible := \<not> noLoaderWhileRequestingDataAsync s,
       collaborator_calls := collaborator_calls s @ [Call_requestDataAsync rowOffset count]\<rparr>"

text \<open>From the \<open>await\<close> on: the \<open>try\<close> body on a response, the \<open>catch\<close> on a rejection (the
  error is recorded and thrown again), and the \<open>finally\<close> in both cases.\<close>

definition onRequestData_resume ::
  "TableViewerModel \<Rightarrow> nat \<Rightarrow> exn + IRequestDataResult \<Rightarrow> TableViewerModel \<times> (exn + IRequestedData)" where
  "onRequestData_resume s rowOffset outcome =
     (case outcome of
        Inr response \<Rightarrow>
          (let s1 = insertRows s rowOffset (res_rows response) (\<not> res_isFullyLoaded response);
               s2 = (if length (getColumns (tableDataModel s1)) = 0
                     then s1\<lparr>tableDataModel := overWrite (tableDataModel s1) (res_columns response)\<rparr>
                     else s1);
               s3 = clearErrors s2;
               s4 = updateInfo s3 (res_statusMessage response) (res_duration response)
           in (s4\<lparr>isLoaderVisible := False\<rparr>,
               Inr \<lparr>data_rows = res_rows response, data_columns = res_columns response,
                    data_isFullyLoaded = res_isFullyLoaded response\<rparr>))
      | Inl e \<Rightarrow> ((showError s e)\<lparr>isLoaderVisible := False\<rparr>, Inl e))"

text \<open>The whole call, when nothing else runs during the \<open>await\<close>. The last argument is the
  answer of \<open>requestDataAsync\<close>, used only if the call is made.\<close>

definition onRequestData ::
  "TableViewerModel \<Rightarrow> nat \<Rightarrow> nat \<Rightarrow> exn + IRequestDataResult \<Rightarrow> TableViewerModel \<times> (exn + IRequestedData)" where
  "onRequestData s rowOffset count outcome =
     (case onRequestData_cached s rowOffset count of
        Some data \<Rightarrow> (s, Inr data)
      | None \<Rightarrow> onRequestData_resume (onRequestData_begin s rowOffset count) rowOffset outcome)"

subsection \<open>Saving and reverting edits\<close>

definition updateAgGridRows :: "TableViewerModel \<Rightarrow> SomeTableRows \<Rightarrow> TableViewerModel" where
  "updateAgGridRows s someRows = call_actions (map (\<lambda>(rowNumber, row). Call_updateRowValue rowNumber row) someRows) s"

definition revertChanges :: "TableViewerModel \<Rightarrow> RowDiff list \<Rightarrow> TableViewerModel" where
  "revertChanges s diffs =
     (let s1 = s\<lparr>tableEditor := cancelChanges (tableEditor s)\<rparr>;
          initial = fold (\<lambda>diff. AList.update (rowIndex diff) (source diff)) diffs []
      in updateAgGridRows s1 initial)"

definition onEditCancel :: "TableViewerModel \<Rightarrow> TableViewerModel" where
  "onEditCancel s = revertChanges s (getChanges (tableEditor s))"

definition zipDiffAndResults :: "RowDiff list \<Rightarrow> TableRow list \<Rightarrow> exn + SomeTableRows" where
  "zipDiffAndResults diff newRows =
     (if length diff \<noteq> length newRows
      then Inl (Error ''Error'' ''expected that new rows have same length as diff'')
      else Inr (fold (\<lambda>i. AList.update (rowIndex (diff ! i)) (newRows ! i)) [0 ..< length diff] []))"

text \<open>\<open>trySaveChanges\<close> up to its \<open>await\<close>.\<close>

definition trySaveChanges_begin :: "TableViewerModel \<Rightarrow> RowDiff list \<Rightarrow> TableViewerModel" where
  "trySaveChanges_begin s diffs =
     s\<lparr>isLoaderVisible := True,
       collaborator_calls := collaborator_calls s @ [Call_saveChanges diffs]\<rparr>"

text \<open>\<open>trySaveChanges\<close> from its \<open>await\<close> on. It has no \<open>catch\<close>: a rejection of the save, and the
  error thrown by \<open>zipDiffAndResults\<close>, leave through the \<open>finally\<close> to the caller.\<close>

definition trySaveChanges_resume ::
  "TableViewerModel \<Rightarrow> RowDiff list \<Rightarrow> exn + IRequestDataResult \<Rightarrow> TableViewerModel \<times> exn option" where
  "trySaveChanges_resume s diffs outcome =
     (case outcome of
        Inl e \<Rightarrow> (s\<lparr>isLoaderVisible := False\<rparr>, Some e)
      | Inr data \<Rightarrow>
          (case zipDiffAndResults diffs (res_rows data) of
             Inl e \<Rightarrow> (s\<lparr>isLoaderVisible := False\<rparr>, Some e)
           | Inr someRows \<Rightarrow>
               (let s1 = s\<lparr>tableEditor := cancelChanges (tableEditor s)\<rparr>;
                    s2 = s1\<lparr>tableDataModel := updateRows (tableDataModel s1) someRows\<rparr>;
                    s3 = updateAgGridRows s2 someRows;
                    s4 = clearErrors s3;
                    s5 = updateInfo s4 (res_statusMessage data) (res_duration data)
                in (s5\<lparr>isLoaderVisible := False\<rparr>, None))))"

definition trySaveChanges ::
  "TableViewerModel \<Rightarrow> RowDiff list \<Rightarrow> exn + IRequestDataResult \<Rightarrow> TableViewerModel \<times> exn option" where
  "trySaveChanges s diffs outcome = trySaveChanges_resume (trySaveChanges_begin s diffs) diffs outcome"

text \<open>The \<open>catch\<close> block of \<open>onSaveChanges\<close> up to its \<open>await\<close>: the retry dialog is opened with
  the message, and with a details callback iff the error is a \<open>GQLError\<close> with details. The
  source first builds the generic message and then replaces it for a \<open>GQLError\<close>; only the
  final values are passed on.\<close>

definition open_ErrorDialog :: "TableViewerModel \<Rightarrow> exn \<Rightarrow> TableViewerModel" where
  "open_ErrorDialog s e =
     (let hasDetails1 = (if isGQLError e then exn_hasDetails e else False);
          message1 = (if isGQLError e then errorText e else name e @ '': '' @ message e)
      in s\<lparr>collaborator_calls := collaborator_calls s @ [Call_open_ErrorDialog message1 hasDetails1]\<rparr>)"

text \<open>The \<open>catch\<close> block after the dialog has answered.\<close>

definition after_ErrorDialog :: "TableViewerModel \<Rightarrow> RowDiff list \<Rightarrow> bool \<Rightarrow> TableViewerModel option" where
  "after_ErrorDialog s diffs tryAgain = (if \<not> tryAgain then Some (revertChanges s diffs) else None)"

text \<open>One round of the \<open>while (true)\<close> loop needs the answer of \<open>saveChanges\<close> and, if the
  attempt throws, the answer of the dialog. The loop runs on a script of such rounds; it has
  not returned (\<open>None\<close>) when the script ends before a commit or a revert.\<close>

datatype save_round = Round (save_answer: "exn + IRequestDataResult") (dialog_answer: bool)

fun save_loop :: "RowDiff list \<Rightarrow> TableViewerModel \<Rightarrow> save_round list \<Rightarrow> TableViewerModel option" where
  "save_loop diffs s [] = None"
| "save_loop diffs s (Round outcome tryAgain # script) =
     (case trySaveChanges s diffs outcome of
        (s1, None) \<Rightarrow> Some s1
      | (s1, Some e) \<Rightarrow>
          (let s2 = open_ErrorDialog s1 e
           in case after_ErrorDialog s2 diffs tryAgain of
                Some s3 \<Rightarrow> Some s3
              | None \<Rightarrow> save_loop diffs s2 script))"

definition onSaveChanges :: "TableViewerModel \<Rightarrow> save_round list \<Rightarrow> TableViewerModel option" where
  "onSaveChanges s script =
     (let diffs = getChanges (tableEditor s)
      in if length diffs = 0 then Some s else save_loop diffs s script)"

subsection \<open>Sequences of calls\<close>

text \<open>A sequence of complete \<open>onRequestData\<close> calls, each with the answer the remote fetch
  gives if it is called.\<close>

fun requestWindows ::
  "TableViewerModel \<Rightarrow> (nat \<times> nat \<times> (exn + IRequestDataResult)) list \<Rightarrow> TableViewerModel" where
  "requestWindows s [] = s"
| "requestWindows s ((rowOffset, count, outcome) # calls) =
     requestWindows (fst (onRequestData s rowOffset count outcome)) calls"

text \<open>The view model as an event-driven machine. The grid widget and the user call the
  handlers; a remote call or a dialog that has been started is pending until its answer
  arrives, and other handlers may run in between. An answer is accepted only for an operation
  that is pending.\<close>

datatype pending_op =
  Fetching nat nat
| Saving "RowDiff list"
| AwaitingUserDecision "RowDiff list"

fun is_remote :: "pending_op \<Rightarrow> bool" where
  "is_remote (Fetching rowOffset count) = True"
| "is_remote (Saving diffs) = True"
| "is_remote (AwaitingUserDecision diffs) = False"

datatype event =
  RequestData nat nat
| FetchAnswers nat nat "exn + IRequestDataResult"
| CellEditingStopped nat nat string
| EditSave
| SaveAnswers "RowDiff list" "exn + IRequestDataResult"
| DialogAnswers "RowDiff list" bool
| EditCancel
| Refresh
| SetChunkSize int
| ShowDetails
| CancelFetch
| AttachActions

fun step :: "TableViewerModel \<times> pending_op list \<Rightarrow> event \<Rightarrow> (TableViewerModel \<times> pending_op list) option" where
  "step (s, ops) (RequestData rowOffset count) =
     (case onRequestData_cached s rowOffset count of
        Some data \<Rightarrow> Some (s, ops)
      | None \<Rightarrow> Some (onRequestData_begin s rowOffset count, Fetching rowOffset count # ops))"
| "step (s, ops) (FetchAnswers rowOffset count outcome) =
     (if Fetching rowOffset count \<in> set ops
      then Some (fst (onRequestData_resume s rowOffset outcome), remove1 (Fetching rowOffset count) ops)
      else None)"
| "step (s, ops) (CellEditingStopped rowNumber colNumber v) =
     Some (onCellEditingStopped s rowNumber colNumber v, ops)"
| "step (s, ops) EditSave =
     (let diffs = getChanges (tableEditor s)
      in if length diffs = 0 then Some (s, ops)
         else Some (trySaveChanges_begin s diffs, Saving diffs # ops))"
| "step (s, ops) (SaveAnswers diffs outcome) =
     (if Saving diffs \<in> set ops
      then (case trySaveChanges_resume s diffs outcome of
              (s1, None) \<Rightarrow> Some (s1, remove1 (Saving diffs) ops)
            | (s1, Some e) \<Rightarrow>
                Some (open_ErrorDialog s1 e, AwaitingUserDecision diffs # remove1 (Saving diffs) ops))
      else None)"
| "step (s, ops) (DialogAnswers diffs tryAgain) =
     (if AwaitingUserDecision diffs \<in> set ops
      then (case after_ErrorDialog s diffs tryAgain of
              Some s1 \<Rightarrow> Some (s1, remove1 (AwaitingUserDecision diffs) ops)
            | None \<Rightarrow>
                Some (trySaveChanges_begin s diffs,
                      Saving diffs # remove1 (AwaitingUserDecision diffs) ops))
      else None)"
| "step (s, ops) EditCancel = Some (onEditCancel s, ops)"
| "step (s, ops) Refresh = Some (handleRefresh s, ops)"
| "step (s, ops) (SetChunkSize count) = Some (setChunkSize s count, ops)"
| "step (s, ops) ShowDetails = Some (onShowDetails s, ops)"
| "step (s, ops) CancelFetch = Some (cancelFetch s, ops)"
| "step (s, ops) AttachActions = Some (attach_actions s, ops)"

fun run :: "TableViewerModel \<times> pending_op list \<Rightarrow> event list \<Rightarrow> (TableViewerModel \<times> pending_op list) option" where
  "run c [] = Some c"
| "run c (ev # evs) = (case step c ev of None \<Rightarrow> None | Some c' \<Rightarrow> run c' evs)"

text \<open>A round of the save loop throws when the save is rejected or when the returned rows do
  not match the diffs in number.\<close>

definition round_throws :: "RowDiff list \<Rightarrow> save_round \<Rightarrow> bool" where
  "round_throws diffs r =
     (case save_answer r of
        Inl e \<Rightarrow> True
      | Inr data \<Rightarrow> length diffs \<noteq> length (res_rows data))"

text \<open>Modelled from the spec: the session state of section 3, the fields that a refresh is
  said to reset.\<close>

definition session_state :: "TableViewerModel \<Rightarrow> bool \<times> int \<times> bool \<times> string \<times> int \<times> string \<times> bool" where
  "session_state s =
     (hasMoreRows s, chunkSize s, isLoaderVisible s, requestStatusMessage s, queryDuration s,
      errorMessage s, hasDetails s)"

subsection \<open>Invariants of the machine\<close>

text \<open>The loader flag is on only while a remote call is pending.\<close>

definition loader_inv :: "TableViewerModel \<times> pending_op list \<Rightarrow> bool" where
  "loader_inv c = (isLoaderVisible (fst c) \<longrightarrow> (\<exists>op\<in>set (snd c). is_remote op))"

text \<open>The pending-edit set, and the diffs of every save in progress, have one diff per row
  index.\<close>

fun one_diff_per_row :: "pending_op \<Rightarrow> bool" where
  "one_diff_per_row (Fetching rowOffset count) = True"
| "one_diff_per_row (Saving diffs) = distinct (map rowIndex diffs)"
| "one_diff_per_row (AwaitingUserDecision diffs) = distinct (map rowIndex diffs)"

definition diffs_inv :: "TableViewerModel \<times> pending_op list \<Rightarrow> bool" where
  "diffs_inv c =
     (distinct (map rowIndex (tableEditor (fst c))) \<and> list_all one_diff_per_row (snd c))"

subsection \<open>Concrete data\<close>

definition example_columns :: "TableColumn list" where
  "example_columns = [\<lparr>columnName = ''id'', columnKind = ''int'', columnPosition = 0\<rparr>]"

definition other_columns :: "TableColumn list" where
  "other_columns = [\<lparr>columnName = ''title'', columnKind = ''text'', columnPosition = 0\<rparr>]"

definition full_response :: IRequestDataResult where
  "full_response =
     \<lparr>res_rows = [[''a''], [''b''], [''c'']], res_columns = example_columns,
      res_isFullyLoaded = True, res_duration = Some 12, res_statusMessage = ''3 rows''\<rparr>"

definition partial_response :: IRequestDataResult where
  "partial_response =
     \<lparr>res_rows = [[''a''], [''b'']], res_columns = example_columns,
      res_isFullyLoaded = False, res_duration = None, res_statusMessage = ''2 rows''\<rparr>"

definition empty_response :: IRequestDataResult where
  "empty_response =
     \<lparr>res_rows = [], res_columns = example_columns,
      res_isFullyLoaded = True, res_duration = Some 1, res_statusMessage = ''no rows''\<rparr>"

definition fresh_model :: TableViewerModel where
  "fresh_model =
     new_TableViewerModel \<lparr>initialState = None, init_noLoaderWhileRequestingDataAsync = False\<rparr>"

definition loaded_model :: TableViewerModel where
  "loaded_model =
     attach_actions (new_TableViewerModel
       \<lparr>initialState = Some full_response, init_noLoaderWhileRequestingDataAsync = False\<rparr>)"

definition partial_init :: ITableViewerModelInit where
  "partial_init = \<lparr>initialState = Some partial_response, init_noLoaderWhileRequestingDataAsync = False\<rparr>"

definition partial_model :: TableViewerModel where
  "partial_model = attach_actions (new_TableViewerModel partial_init)"

definition example_diffs :: "RowDiff list" where
  "example_diffs =
     [\<lparr>rowIndex = 0, source = [''a''], edited = [''x'']\<rparr>,
      \<lparr>rowIndex = 2, source = [''c''], edited = [''z'']\<rparr>]"

definition editing_model :: TableViewerModel where
  "editing_model =
     onCellEditingStopped (onCellEditingStopped loaded_model 0 0 ''x'') 2 0 ''z''"

definition saved_response :: IRequestDataResult where
  "saved_response =
     \<lparr>res_rows = [[''X''], [''Z'']], res_columns = example_columns,
      res_isFullyLoaded = True, res_duration = Some 5, res_statusMessage = ''saved''\<rparr>"

definition short_response :: IRequestDataResult where
  "short_response =
     \<lparr>res_rows = [[''X'']], res_columns = example_columns,
      res_isFullyLoaded = True, res_duration = Some 5, res_statusMessage = ''saved''\<rparr>"

definition third_row_response :: IRequestDataResult where
  "third_row_response =
     \<lparr>res_rows = [[''c'']], res_columns = example_columns,
      res_isFullyLoaded = True, res_duration = Some 7, res_statusMessage = ''1 row''\<rparr>"

definition other_response :: IRequestDataResult where
  "other_response =
     \<lparr>res_rows = [[''t'']], res_columns = other_columns,
      res_isFullyLoaded = True, res_duration = Some 3, res_statusMessage = ''1 row''\<rparr>"

definition denied :: exn where
  "denied = GQLError ''denied'' (Some ''stack trace'')"

definition failed_fetch_model :: TableViewerModel where
  "failed_fetch_model = fst (onRequestData partial_model 2 200 (Inl denied))"

definition length_mismatch :: exn where
  "length_mismatch = Error ''Error'' ''expected that new rows have same length as diff''"

section \<open>Properties\<close>

subsection \<open>The concrete data, evaluated\<close>

lemmas model_defs =
  new_TableViewerModel_def field_initialisers_def attach_actions_def onCellEditingStopped_def
  editCellValue_def insertRows_def store_insertRows_def overWrite_def updateInfo_def
  getRows_def getColumns_def empty_TableDataModel_def getDefaultRowsCount_def fetchDefault_def
  fetchMin_def fetchMax_def write_row_def

lemma editing_model_eval:
  "editing_model =
    \<lparr>queryDuration = 12, requestStatusMessage = ''3 rows'', errorMessage = [],
     hasDetails = False, hasMoreRows = False, isLoaderVisible = False,
     chunkSize = 200, exception = None,
     tableDataModel =
       \<lparr>rows = [Some [''a''], Some [''b''], Some [''c'']], columns = example_columns\<rparr>,
     tableEditor = example_diffs, noLoaderWhileRequestingDataAsync = False,
     initialRows = [Some [''a''], Some [''b''], Some [''c'']],
     initialColumns = example_columns,
     grid_chunkSize = 200, actions = True, grid_calls = [], collaborator_calls = []\<rparr>"
  by (simp add: editing_model_def loaded_model_def full_response_def example_diffs_def model_defs Let_def)

lemma partial_model_eval:
  "partial_model =
    \<lparr>queryDuration = 0, requestStatusMessage = ''2 rows'', errorMessage = [],
     hasDetails = False, hasMoreRows = True, isLoaderVisible = False,
     chunkSize = 200, exception = None,
     tableDataModel = \<lparr>rows = [Some [''a''], Some [''b'']], columns = example_columns\<rparr>,
     tableEditor = [], noLoaderWhileRequestingDataAsync = False,
     initialRows = [Some [''a''], Some [''b'']],
     initialColumns = example_columns,
     grid_chunkSize = 200, actions = True, grid_calls = [], collaborator_calls = []\<rparr>"
  by (simp add: partial_model_def partial_init_def partial_response_def model_defs Let_def)

lemma fresh_model_eval:
  "fresh_model =
    \<lparr>queryDuration = 0, requestStatusMessage = [], errorMessage = [],
     hasDetails = False, hasMoreRows = True, isLoaderVisible = False,
     chunkSize = 200, exception = None,
     tableDataModel = \<lparr>rows = [], columns = []\<rparr>,
     tableEditor = [], noLoaderWhileRequestingDataAsync = False,
     initialRows = [], initialColumns = [],
     grid_chunkSize = 200, actions = False, grid_calls = [], collaborator_calls = []\<rparr>"
  by (simp add: fresh_model_def model_defs Let_def)

lemma loaded_model_eval:
  "loaded_model =
    \<lparr>queryDuration = 12, requestStatusMessage = ''3 rows'', errorMessage = [],
     hasDetails = False, hasMoreRows = False, isLoaderVisible = False,
     chunkSize = 200, exception = None,
     tableDataModel =
       \<lparr>rows = [Some [''a''], Some [''b''], Some [''c'']], columns = example_columns\<rparr>,
     tableEditor = [], noLoaderWhileRequestingDataAsync = False,
     initialRows = [Some [''a''], Some [''b''], Some [''c'']],
     initialColumns = example_columns,
     grid_chunkSize = 200, actions = True, grid_calls = [], collaborator_calls = []\<rparr>"
  by (simp add: loaded_model_def full_response_def model_defs Let_def)

lemma not_loaded_beyond:
  "0 < count \<Longrightarrow> length (rows m) \<le> rowOffset \<Longrightarrow> \<not> isChunkLoaded m rowOffset count"
  by (auto simp: isChunkLoaded_def list_all_iff intro!: bexI [of _ rowOffset])

lemma failed_fetch_model_eval:
  "failed_fetch_model =
     partial_model\<lparr>errorMessage := ''denied'', hasDetails := True, exception := Some denied,
       collaborator_calls := [Call_requestDataAsync 2 200]\<rparr>"
proof -
  have "\<not> isChunkLoaded (tableDataModel partial_model) 2 200"
    by (rule not_loaded_beyond) (simp_all add: partial_model_eval)
  then show ?thesis
    by (simp add: failed_fetch_model_def onRequestData_def onRequestData_cached_def isFullyLoaded_def
        onRequestData_begin_def onRequestData_resume_def showError_def denied_def Let_def)
       (simp add: partial_model_eval)
qed

subsection \<open>The store and the row maps\<close>

lemma write_row_length: "length (write_row i r xs) = max (length xs) (Suc i)"
  by (auto simp: write_row_def)

lemma write_row_same: "write_row i r xs ! i = Some r"
  by (auto simp: write_row_def nth_append)

lemma write_row_other: "j \<noteq> i \<Longrightarrow> j < length xs \<Longrightarrow> write_row i r xs ! j = xs ! j"
  by (auto simp: write_row_def nth_append)

lemma update_fresh_key: "k \<notin> fst ` set al \<Longrightarrow> AList.update k v al = al @ [(k, v)]"
  by (induction al) auto

lemma fold_update_distinct:
  "distinct (map fst al @ map kf xs) \<Longrightarrow>
     fold (\<lambda>x. AList.update (kf x) (vf x)) xs al = al @ map (\<lambda>x. (kf x, vf x)) xs"
proof (induction xs arbitrary: al)
  case Nil
  then show ?case by simp
next
  case (Cons x xs)
  from Cons.prems have fresh: "kf x \<notin> fst ` set al" by auto
  from Cons.prems have d: "distinct (map fst (al @ [(kf x, vf x)]) @ map kf xs)" by auto
  show ?case
    using Cons.IH [OF d] by (simp add: update_fresh_key [OF fresh])
qed

lemma revert_map:
  "distinct (map rowIndex diffs) \<Longrightarrow>
     fold (\<lambda>diff. AList.update (rowIndex diff) (source diff)) diffs []
       = map (\<lambda>diff. (rowIndex diff, source diff)) diffs"
  using fold_update_distinct [of "[]" rowIndex diffs source] by simp

lemma zip_map_indices:
  "length newRows = length diff \<Longrightarrow>
    map (\<lambda>i. (rowIndex (diff ! i), newRows ! i)) [0 ..< length diff] = zip (map rowIndex diff) newRows"
  by (rule nth_equalityI) auto

lemma zip_ok:
  assumes "length newRows = length diff" "distinct (map rowIndex diff)"
  shows "zipDiffAndResults diff newRows = Inr (zip (map rowIndex diff) newRows)"
proof -
  have idx: "map (\<lambda>i. rowIndex (diff ! i)) [0 ..< length diff] = map rowIndex diff"
    by (rule nth_equalityI) auto
  have "distinct (map fst ([]::(nat \<times> TableRow) list) @ map (\<lambda>i. rowIndex (diff ! i)) [0 ..< length diff])"
    using assms(2) by (simp add: idx)
  from fold_update_distinct [OF this, of "\<lambda>i. newRows ! i"]
  show ?thesis using assms(1) by (simp add: zipDiffAndResults_def zip_map_indices)
qed

lemma fold_write_length:
  "length xs \<le> length (fold (\<lambda>(i, r). write_row i r) kvs xs)"
proof (induction kvs arbitrary: xs)
  case Nil show ?case by simp
next
  case (Cons kv kvs)
  obtain k v where kv: "kv = (k, v)" by (cases kv)
  have "length xs \<le> length (write_row k v xs)" by (simp add: write_row_length)
  also have "\<dots> \<le> length (fold (\<lambda>(i, r). write_row i r) kvs (write_row k v xs))" by (rule Cons.IH)
  finally show ?case by (simp add: kv)
qed

lemma fold_write_other:
  "j \<notin> fst ` set kvs \<Longrightarrow> j < length xs \<Longrightarrow> fold (\<lambda>(i, r). write_row i r) kvs xs ! j = xs ! j"
proof (induction kvs arbitrary: xs)
  case Nil show ?case by simp
next
  case (Cons kv kvs)
  obtain k v where kv: "kv = (k, v)" by (cases kv)
  from Cons.prems kv have ne: "j \<noteq> k" and notin: "j \<notin> fst ` set kvs" by auto
  have len: "j < length (write_row k v xs)" using Cons.prems(2) by (simp add: write_row_length)
  show ?case using Cons.IH [OF notin len] ne Cons.prems(2) by (simp add: kv write_row_other)
qed

lemma fold_write_written:
  "distinct (map fst kvs) \<Longrightarrow> (k, v) \<in> set kvs \<Longrightarrow>
     k < length (fold (\<lambda>(i, r). write_row i r) kvs xs) \<and> fold (\<lambda>(i, r). write_row i r) kvs xs ! k = Some v"
proof (induction kvs arbitrary: xs)
  case Nil then show ?case by simp
next
  case (Cons kv kvs)
  obtain k' v' where kv: "kv = (k', v')" by (cases kv)
  show ?case
  proof (cases "(k, v) = kv")
    case True
    with Cons.prems kv have notin: "k \<notin> fst ` set kvs" by auto
    have len: "k < length (write_row k v xs)" by (simp add: write_row_length)
    have "length (write_row k v xs) \<le> length (fold (\<lambda>(i, r). write_row i r) kvs (write_row k v xs))"
      by (rule fold_write_length)
    with len fold_write_other [OF notin len] True kv show ?thesis
      by (auto simp: write_row_same)
  next
    case False
    with Cons.prems have "distinct (map fst kvs)" "(k, v) \<in> set kvs" by auto
    from Cons.IH [OF this] show ?thesis by (simp add: kv)
  qed
qed

lemma call_actions_fields [simp]:
  "actions (call_actions cs s) = actions s"
  "tableDataModel (call_actions cs s) = tableDataModel s"
  "tableEditor (call_actions cs s) = tableEditor s"
  "isLoaderVisible (call_actions cs s) = isLoaderVisible s"
  "collaborator_calls (call_actions cs s) = collaborator_calls s"
  "grid_calls (call_actions cs s) = grid_calls s @ (if actions s then cs else [])"
  by (simp_all add: call_actions_def)

lemma trySave_ok:
  assumes len: "length (res_rows data) = length diffs"
      and dist: "distinct (map rowIndex diffs)"
  shows "trySaveChanges s diffs (Inr data) =
     ((updateInfo (clearErrors (updateAgGridRows
         (s\<lparr>isLoaderVisible := True,
            collaborator_calls := collaborator_calls s @ [Call_saveChanges diffs],
            tableEditor := [],
            tableDataModel := updateRows (tableDataModel s) (zip (map rowIndex diffs) (res_rows data))\<rparr>)
         (zip (map rowIndex diffs) (res_rows data))))
        (res_statusMessage data) (res_duration data))\<lparr>isLoaderVisible := False\<rparr>, None)"
  using zip_ok [OF len dist]
  by (simp add: trySaveChanges_def trySaveChanges_resume_def trySaveChanges_begin_def Let_def cancelChanges_def)

subsection \<open>One diff per row\<close>

text \<open>The edit tracker keeps one diff per row index, so the diffs that a commit cycle or a
  revert works on have pairwise different row indices in every state the machine reaches.\<close>

lemma edit_existing_keys:
  "edit_existing row col v ed = Some ed' \<Longrightarrow> map rowIndex ed' = map rowIndex ed"
  by (induction ed arbitrary: ed') (auto split: if_splits)

lemma edit_existing_none:
  "edit_existing row col v ed = None \<Longrightarrow> row \<notin> rowIndex ` set ed"
  by (induction ed) (auto split: if_splits)

lemma editCellValue_one_diff_per_row:
  "distinct (map rowIndex ed) \<Longrightarrow> distinct (map rowIndex (editCellValue m ed row col v))"
  by (auto simp: editCellValue_def dest: edit_existing_keys edit_existing_none split: option.splits)

lemma tableEditor_kept [simp]:
  "tableEditor (open_ErrorDialog s e) = tableEditor s"
  "tableEditor (handleRefresh s) = tableEditor s"
  "tableEditor (setChunkSize s n) = tableEditor s"
  "tableEditor (onShowDetails s) = tableEditor s"
  "tableEditor (cancelFetch s) = tableEditor s"
  "tableEditor (attach_actions s) = tableEditor s"
  "tableEditor (onRequestData_begin s rowOffset count) = tableEditor s"
  "tableEditor (trySaveChanges_begin s diffs) = tableEditor s"
  "tableEditor (fst (onRequestData_resume s rowOffset outcome)) = tableEditor s"
  "tableEditor (revertChanges s diffs) = []"
  "tableEditor (onEditCancel s) = []"
  by (simp_all add: open_ErrorDialog_def handleRefresh_def resetData_def call_actions_def
      setChunkSize_def updateChunkSize_def onShowDetails_def attach_actions_def cancelFetch_def
      onRequestData_begin_def trySaveChanges_begin_def onRequestData_resume_def insertRows_def
      clearErrors_def updateInfo_def showError_def revertChanges_def onEditCancel_def
      updateAgGridRows_def cancelChanges_def Let_def split: option.splits sum.splits)

lemma tableEditor_after_save:
  "tableEditor (fst (trySaveChanges_resume s diffs outcome)) = tableEditor s
   \<or> tableEditor (fst (trySaveChanges_resume s diffs outcome)) = []"
  by (simp add: trySaveChanges_resume_def updateAgGridRows_def clearErrors_def updateInfo_def
      cancelChanges_def Let_def split: sum.splits)

lemma list_all_remove1: "list_all P xs \<Longrightarrow> list_all P (remove1 x xs)"
  by (auto simp: list_all_iff dest: notin_set_remove1)

lemma step_diffs_inv:
  assumes "diffs_inv c" and "step c ev = Some c'"
  shows "diffs_inv c'"
proof -
  obtain s ops where c: "c = (s, ops)" by (cases c)
  from assms(1) c have ed: "distinct (map rowIndex (tableEditor s))"
    and ops: "list_all one_diff_per_row ops"
    by (simp_all add: diffs_inv_def)
  show ?thesis
  proof (cases ev)
    case (RequestData rowOffset count)
    with assms(2) c ed ops show ?thesis
      by (auto simp: diffs_inv_def split: option.splits)
  next
    case (FetchAnswers rowOffset count outcome)
    with assms(2) c ed ops show ?thesis
      by (auto simp: diffs_inv_def list_all_remove1 split: if_splits)
  next
    case (CellEditingStopped rowNumber colNumber v)
    with assms(2) c ed ops show ?thesis
      by (auto simp: diffs_inv_def onCellEditingStopped_def editCellValue_one_diff_per_row)
  next
    case EditSave
    with assms(2) c ed ops show ?thesis
      by (auto simp: diffs_inv_def getChanges_def Let_def split: if_splits)
  next
    case (SaveAnswers diffs outcome)
    show ?thesis
    proof (cases "Saving diffs \<in> set ops")
      case False
      with assms(2) c SaveAnswers show ?thesis by simp
    next
      case True
      with ops have d: "distinct (map rowIndex diffs)"
        by (auto simp: list_all_iff)
      obtain s1 r where res: "trySaveChanges_resume s diffs outcome = (s1, r)"
        by (cases "trySaveChanges_resume s diffs outcome")
      with tableEditor_after_save [of s diffs outcome] ed
      have ed1: "distinct (map rowIndex (tableEditor s1))" by auto
      from assms(2) c SaveAnswers True res ed1 d ops show ?thesis
        by (cases r) (auto simp: diffs_inv_def list_all_remove1)
    qed
  next
    case (DialogAnswers diffs tryAgain)
    show ?thesis
    proof (cases "AwaitingUserDecision diffs \<in> set ops")
      case False
      with assms(2) c DialogAnswers show ?thesis by simp
    next
      case True
      with ops have d: "distinct (map rowIndex diffs)"
        by (auto simp: list_all_iff)
      from assms(2) c DialogAnswers True ed d ops show ?thesis
        by (cases tryAgain) (auto simp: diffs_inv_def after_ErrorDialog_def list_all_remove1)
    qed
  qed (use assms(2) c ed ops in \<open>auto simp: diffs_inv_def\<close>)
qed

lemma run_diffs_inv:
  "diffs_inv c \<Longrightarrow> run c evs = Some c' \<Longrightarrow> diffs_inv c'"
proof (induction evs arbitrary: c)
  case Nil
  then show ?case by simp
next
  case (Cons ev evs)
  then show ?case
    by (auto split: option.splits dest: step_diffs_inv)
qed

lemma one_diff_per_row_reachable:
  assumes "run (new_TableViewerModel init, []) evs = Some (s, ops)"
  shows "distinct (map rowIndex (tableEditor s))"
    and "Saving diffs \<in> set ops \<Longrightarrow> distinct (map rowIndex diffs)"
    and "AwaitingUserDecision diffs \<in> set ops \<Longrightarrow> distinct (map rowIndex diffs)"
proof -
  have "tableEditor (new_TableViewerModel init) = []"
    by (simp add: new_TableViewerModel_def field_initialisers_def insertRows_def updateInfo_def Let_def
        split: option.splits)
  then have "diffs_inv (new_TableViewerModel init, [])"
    by (simp add: diffs_inv_def)
  from run_diffs_inv [OF this assms] have inv: "diffs_inv (s, ops)" .
  then show "distinct (map rowIndex (tableEditor s))"
    by (simp add: diffs_inv_def)
  from inv show "Saving diffs \<in> set ops \<Longrightarrow> distinct (map rowIndex diffs)"
    by (auto simp: diffs_inv_def list_all_iff)
  from inv show "AwaitingUserDecision diffs \<in> set ops \<Longrightarrow> distinct (map rowIndex diffs)"
    by (auto simp: diffs_inv_def list_all_iff)
qed

subsection \<open>Commit reconciliation\<close>

text \<open>
  C4. For every successful save with diffs of length \<open>n\<close> and returned rows of length \<open>n\<close>, the
  \<open>i\<close>-th returned row is written into the store at the \<open>i\<close>-th diff's \<open>rowIndex\<close> and forwarded
  to the grid widget at that same index, for every \<open>i < n\<close>; the pending-edit set is cleared,
  status and duration are updated, and the error message is cleared. The diffs are those of
  the edit tracker, which holds one diff per row index; rows at other indices are kept; the
  calls reach the widget when it has set its \<open>actions\<close> handle; and the commit cycle returns
  after this one attempt.
\<close>

theorem save_success_reconciles:
  assumes len: "length (res_rows data) = length diffs"
      and dist: "distinct (map rowIndex diffs)"
  shows "snd (trySaveChanges s diffs (Inr data)) = None
    \<and> (\<forall>i<length diffs.
          rowIndex (diffs ! i) < length (rows (tableDataModel (fst (trySaveChanges s diffs (Inr data)))))
          \<and> rows (tableDataModel (fst (trySaveChanges s diffs (Inr data)))) ! rowIndex (diffs ! i)
              = Some (res_rows data ! i))
    \<and> (\<forall>j<length (rows (tableDataModel s)). j \<notin> rowIndex ` set diffs \<longrightarrow>
          rows (tableDataModel (fst (trySaveChanges s diffs (Inr data)))) ! j = rows (tableDataModel s) ! j)
    \<and> grid_calls (fst (trySaveChanges s diffs (Inr data))) =
         grid_calls s @ (if actions s
                         then map (\<lambda>i. Call_updateRowValue (rowIndex (diffs ! i)) (res_rows data ! i)) [0 ..< length diffs]
                         else [])
    \<and> tableEditor (fst (trySaveChanges s diffs (Inr data))) = []
    \<and> requestStatusMessage (fst (trySaveChanges s diffs (Inr data))) = res_statusMessage data
    \<and> queryDuration (fst (trySaveChanges s diffs (Inr data))) = (case res_duration data of None \<Rightarrow> 0 | Some d \<Rightarrow> d)
    \<and> errorMessage (fst (trySaveChanges s diffs (Inr data))) = []
    \<and> \<not> isLoaderVisible (fst (trySaveChanges s diffs (Inr data)))
    \<and> (tableEditor s = diffs \<and> diffs \<noteq> [] \<longrightarrow>
         onSaveChanges s (Round (Inr data) answer # script) = Some (fst (trySaveChanges s diffs (Inr data))))"
proof -
  let ?kvs = "zip (map rowIndex diffs) (res_rows data)"
  let ?s' = "fst (trySaveChanges s diffs (Inr data))"
  note eq = trySave_ok [OF len dist, of s]
  have dk: "distinct (map fst ?kvs)" using len dist by simp
  have keys: "fst ` set ?kvs = rowIndex ` set diffs"
    using len by (metis (no_types) length_map list.set_map map_fst_zip)
  have rows': "rows (tableDataModel ?s') = fold (\<lambda>(i, r). write_row i r) ?kvs (rows (tableDataModel s))"
    by (simp add: eq updateInfo_def clearErrors_def updateAgGridRows_def updateRows_def)
  have written: "\<forall>i<length diffs.
          rowIndex (diffs ! i) < length (rows (tableDataModel ?s'))
          \<and> rows (tableDataModel ?s') ! rowIndex (diffs ! i) = Some (res_rows data ! i)"
  proof (intro allI impI)
    fix i assume i: "i < length diffs"
    then have "(rowIndex (diffs ! i), res_rows data ! i) \<in> set ?kvs"
      using len by (auto simp: set_zip intro!: exI [of _ i])
    from fold_write_written [OF dk this, of "rows (tableDataModel s)"]
    show "rowIndex (diffs ! i) < length (rows (tableDataModel ?s'))
          \<and> rows (tableDataModel ?s') ! rowIndex (diffs ! i) = Some (res_rows data ! i)"
      by (simp add: rows')
  qed
  have kept: "\<forall>j<length (rows (tableDataModel s)). j \<notin> rowIndex ` set diffs \<longrightarrow>
          rows (tableDataModel ?s') ! j = rows (tableDataModel s) ! j"
    using fold_write_other [of _ ?kvs "rows (tableDataModel s)"] by (simp add: rows' keys)
  have calls: "grid_calls ?s' =
         grid_calls s @ (if actions s
                         then map (\<lambda>i. Call_updateRowValue (rowIndex (diffs ! i)) (res_rows data ! i)) [0 ..< length diffs]
                         else [])"
  proof -
    have "map (\<lambda>(rowNumber, row). Call_updateRowValue rowNumber row) ?kvs =
            map (\<lambda>i. Call_updateRowValue (rowIndex (diffs ! i)) (res_rows data ! i)) [0 ..< length diffs]"
      using len by (intro nth_equalityI) auto
    then show ?thesis
      by (simp add: eq updateInfo_def clearErrors_def updateAgGridRows_def)
  qed
  have rest: "snd (trySaveChanges s diffs (Inr data)) = None" "tableEditor ?s' = []"
     "requestStatusMessage ?s' = res_statusMessage data"
     "queryDuration ?s' = (case res_duration data of None \<Rightarrow> 0 | Some d \<Rightarrow> d)"
     "errorMessage ?s' = []" "\<not> isLoaderVisible ?s'"
    by (simp_all add: eq updateInfo_def clearErrors_def updateAgGridRows_def)
  have loop: "tableEditor s = diffs \<and> diffs \<noteq> [] \<longrightarrow>
         onSaveChanges s (Round (Inr data) answer # script) = Some ?s'"
    using rest(1) by (auto simp: onSaveChanges_def getChanges_def Let_def split: prod.splits option.splits)
  from written kept calls rest loop show ?thesis by blast
qed

theorem save_success_reconciles_witness:
  "length (res_rows saved_response) = length example_diffs
   \<and> distinct (map rowIndex example_diffs)
   \<and> tableEditor editing_model = example_diffs \<and> example_diffs \<noteq> []
   \<and> onSaveChanges editing_model [Round (Inr saved_response) False]
        = Some (fst (trySaveChanges editing_model example_diffs (Inr saved_response)))
   \<and> rows (tableDataModel (fst (trySaveChanges editing_model example_diffs (Inr saved_response)))) ! 2
        = Some [''Z'']
   \<and> grid_calls (fst (trySaveChanges editing_model example_diffs (Inr saved_response)))
        = [Call_updateRowValue 0 [''X''], Call_updateRowValue 2 [''Z'']]"
proof -
  have len: "length (res_rows saved_response) = length example_diffs"
    by (simp add: saved_response_def example_diffs_def)
  have dist: "distinct (map rowIndex example_diffs)"
    by (simp add: example_diffs_def)
  have ed: "tableEditor editing_model = example_diffs \<and> example_diffs \<noteq> []"
    by (simp add: editing_model_eval) (simp add: example_diffs_def)
  have idx: "rowIndex (example_diffs ! Suc 0) = 2" "res_rows saved_response ! Suc 0 = [''Z'']"
     "Suc 0 < length example_diffs"
    by (simp_all add: example_diffs_def saved_response_def)
  have calls: "map (\<lambda>i. Call_updateRowValue (rowIndex (example_diffs ! i)) (res_rows saved_response ! i))
                 [0 ..< length example_diffs]
               = [Call_updateRowValue 0 [''X''], Call_updateRowValue 2 [''Z'']]"
    by (simp add: example_diffs_def saved_response_def upt_rec)
  have act: "actions editing_model" "grid_calls editing_model = []"
    by (simp_all add: editing_model_eval)
  note T = save_success_reconciles [OF len dist, of editing_model False "[]"]
  from T have written: "\<forall>i<length example_diffs.
      rowIndex (example_diffs ! i)
        < length (rows (tableDataModel (fst (trySaveChanges editing_model example_diffs (Inr saved_response)))))
      \<and> rows (tableDataModel (fst (trySaveChanges editing_model example_diffs (Inr saved_response))))
           ! rowIndex (example_diffs ! i) = Some (res_rows saved_response ! i)"
    by blast
  from written [rule_format, OF idx(3)] idx(1,2)
  have r2: "rows (tableDataModel (fst (trySaveChanges editing_model example_diffs (Inr saved_response)))) ! 2
              = Some [''Z'']"
    by simp
  from T act calls
  have g: "grid_calls (fst (trySaveChanges editing_model example_diffs (Inr saved_response)))
        = [Call_updateRowValue 0 [''X''], Call_updateRowValue 2 [''Z'']]"
    by simp
  from T ed
  have l: "onSaveChanges editing_model [Round (Inr saved_response) False]
        = Some (fst (trySaveChanges editing_model example_diffs (Inr saved_response)))"
    by blast
  from len dist ed r2 g l show ?thesis by blast
qed

subsection \<open>Attempts that throw\<close>

lemma trySave_throws:
  assumes "round_throws diffs (Round outcome answer)"
  shows "trySaveChanges s diffs outcome =
           (s\<lparr>isLoaderVisible := False,
              collaborator_calls := collaborator_calls s @ [Call_saveChanges diffs]\<rparr>,
            Some (case outcome of Inl e \<Rightarrow> e | Inr data \<Rightarrow> length_mismatch))"
  using assms
  by (auto simp: round_throws_def trySaveChanges_def trySaveChanges_resume_def trySaveChanges_begin_def
      zipDiffAndResults_def length_mismatch_def split: sum.splits)

lemma revertChanges_fields:
  assumes "distinct (map rowIndex diffs)"
  shows "tableEditor (revertChanges s diffs) = []"
    and "tableDataModel (revertChanges s diffs) = tableDataModel s"
    and "grid_calls (revertChanges s diffs) =
           grid_calls s @ (if actions s then map (\<lambda>d. Call_updateRowValue (rowIndex d) (source d)) diffs else [])"
  using revert_map [OF assms]
  by (simp_all add: revertChanges_def updateAgGridRows_def cancelChanges_def Let_def comp_def)

lemma open_ErrorDialog_shape:
  "\<exists>c. open_ErrorDialog s e = s\<lparr>collaborator_calls := collaborator_calls s @ [c]\<rparr>"
  unfolding open_ErrorDialog_def Let_def by (rule exI) (rule refl)

lemma throwing_round:
  assumes "round_throws diffs (Round outcome answer)"
  shows "\<exists>cs. save_loop diffs s (Round outcome answer # script) =
           (if answer
            then save_loop diffs (s\<lparr>isLoaderVisible := False, collaborator_calls := cs\<rparr>) script
            else Some (revertChanges (s\<lparr>isLoaderVisible := False, collaborator_calls := cs\<rparr>) diffs))"
proof -
  let ?s1 = "s\<lparr>isLoaderVisible := False,
               collaborator_calls := collaborator_calls s @ [Call_saveChanges diffs]\<rparr>"
  let ?e = "case outcome of Inl e \<Rightarrow> e | Inr data \<Rightarrow> length_mismatch"
  obtain c where c: "open_ErrorDialog ?s1 ?e = ?s1\<lparr>collaborator_calls := collaborator_calls ?s1 @ [c]\<rparr>"
    using open_ErrorDialog_shape by blast
  have "save_loop diffs s (Round outcome answer # script) =
           (if answer
            then save_loop diffs (s\<lparr>isLoaderVisible := False,
                   collaborator_calls := collaborator_calls s @ [Call_saveChanges diffs, c]\<rparr>) script
            else Some (revertChanges (s\<lparr>isLoaderVisible := False,
                   collaborator_calls := collaborator_calls s @ [Call_saveChanges diffs, c]\<rparr>) diffs))"
    using trySave_throws [OF assms, of s] c by (simp add: after_ErrorDialog_def)
  then show ?thesis by blast
qed

lemma save_loop_declined:
  assumes throws: "\<forall>r\<in>set (retried @ [declined]). round_throws diffs r"
      and retry: "\<forall>r\<in>set retried. dialog_answer r"
      and decline: "\<not> dialog_answer declined"
  shows "\<exists>cs. save_loop diffs s (retried @ declined # script)
           = Some (revertChanges (s\<lparr>isLoaderVisible := False, collaborator_calls := cs\<rparr>) diffs)"
  using throws retry
proof (induction retried arbitrary: s)
  case Nil
  obtain outcome answer where d: "declined = Round outcome answer" by (cases declined)
  with decline have na: "\<not> answer" by simp
  from Nil d have "round_throws diffs (Round outcome answer)" by simp
  from throwing_round [OF this, of s script] na show ?case
    by (simp add: d)
next
  case (Cons r retried)
  obtain outcome answer where r: "r = Round outcome answer" by (cases r)
  with Cons.prems have a: "answer" and th: "round_throws diffs (Round outcome answer)" by auto
  from Cons.prems have rest: "\<forall>r\<in>set (retried @ [declined]). round_throws diffs r"
     "\<forall>r\<in>set retried. dialog_answer r" by auto
  from throwing_round [OF th, of s "retried @ declined # script"] a obtain cs where
    one: "save_loop diffs s (Round outcome answer # retried @ declined # script) =
         save_loop diffs (s\<lparr>isLoaderVisible := False, collaborator_calls := cs\<rparr>) (retried @ declined # script)"
    by auto
  from Cons.IH [OF rest, of "s\<lparr>isLoaderVisible := False, collaborator_calls := cs\<rparr>"] obtain cs' where
    "save_loop diffs (s\<lparr>isLoaderVisible := False, collaborator_calls := cs\<rparr>) (retried @ declined # script)
       = Some (revertChanges (s\<lparr>isLoaderVisible := False, collaborator_calls := cs'\<rparr>) diffs)"
    by auto
  with one show ?case by (auto simp: r)
qed

subsection \<open>Revert\<close>

text \<open>
  C5. For every pending diff set, when the user declines a retry after a save failure (and
  likewise on edit cancel), the pending-edit set is cleared, the grid widget receives each
  diff's pristine \<open>source\<close> row at the diff's \<open>rowIndex\<close>, and the row store is not modified.
  The cycle may have been retried any number of times before; every attempt threw. The diffs
  are those of the edit tracker, one per row index, and the calls reach the widget when it
  has set its \<open>actions\<close> handle.
\<close>

theorem declined_retry_reverts:
  assumes dist: "distinct (map rowIndex diffs)"
      and pending: "tableEditor s = diffs" "diffs \<noteq> []"
      and throws: "\<forall>r\<in>set (retried @ [declined]). round_throws diffs r"
      and retry: "\<forall>r\<in>set retried. dialog_answer r"
      and decline: "\<not> dialog_answer declined"
  shows "\<exists>s'. onSaveChanges s (retried @ declined # script) = Some s'
           \<and> tableEditor s' = []
           \<and> tableDataModel s' = tableDataModel s
           \<and> grid_calls s' = grid_calls s @
                (if actions s then map (\<lambda>d. Call_updateRowValue (rowIndex d) (source d)) diffs else [])
           \<and> tableEditor (onEditCancel s) = []
           \<and> tableDataModel (onEditCancel s) = tableDataModel s
           \<and> grid_calls (onEditCancel s) = grid_calls s @
                (if actions s then map (\<lambda>d. Call_updateRowValue (rowIndex d) (source d)) diffs else [])"
proof -
  from save_loop_declined [OF throws retry decline, of s script] obtain cs where
    "save_loop diffs s (retried @ declined # script)
       = Some (revertChanges (s\<lparr>isLoaderVisible := False, collaborator_calls := cs\<rparr>) diffs)" by blast
  with pending have "onSaveChanges s (retried @ declined # script)
       = Some (revertChanges (s\<lparr>isLoaderVisible := False, collaborator_calls := cs\<rparr>) diffs)"
    by (simp add: onSaveChanges_def getChanges_def)
  moreover have "onEditCancel s = revertChanges s diffs"
    using pending by (simp add: onEditCancel_def getChanges_def)
  ultimately show ?thesis
    using revertChanges_fields [OF dist] by simp
qed

theorem declined_retry_reverts_witness:
  "distinct (map rowIndex example_diffs)
   \<and> tableEditor editing_model = example_diffs \<and> example_diffs \<noteq> []
   \<and> round_throws example_diffs (Round (Inl (GQLError ''denied'' (Some ''stack''))) True)
   \<and> round_throws example_diffs (Round (Inr short_response) False)
   \<and> dialog_answer (Round (Inl (GQLError ''denied'' (Some ''stack''))) True)
   \<and> \<not> dialog_answer (Round (Inr short_response) False)
   \<and> (\<exists>s'. onSaveChanges editing_model
              [Round (Inl (GQLError ''denied'' (Some ''stack''))) True, Round (Inr short_response) False] = Some s'
         \<and> tableEditor s' = []
         \<and> tableDataModel s' = tableDataModel editing_model
         \<and> grid_calls s' = [Call_updateRowValue 0 [''a''], Call_updateRowValue 2 [''c'']])"
proof -
  have dist: "distinct (map rowIndex example_diffs)"
    by (simp add: example_diffs_def)
  have ed: "tableEditor editing_model = example_diffs" "example_diffs \<noteq> []"
    by (simp add: editing_model_eval) (simp add: example_diffs_def)
  have throws: "\<forall>r\<in>set ([Round (Inl (GQLError ''denied'' (Some ''stack''))) True] @ [Round (Inr short_response) False]).
         round_throws example_diffs r"
    by (simp add: round_throws_def example_diffs_def short_response_def)
  have retry: "\<forall>r\<in>set [Round (Inl (GQLError ''denied'' (Some ''stack''))) True]. dialog_answer r"
    by simp
  have decline: "\<not> dialog_answer (Round (Inr short_response) False)"
    by simp
  have act: "actions editing_model" "grid_calls editing_model = []"
    by (simp_all add: editing_model_eval)
  have calls: "map (\<lambda>d. Call_updateRowValue (rowIndex d) (source d)) example_diffs
                 = [Call_updateRowValue 0 [''a''], Call_updateRowValue 2 [''c'']]"
    by (simp add: example_diffs_def)
  from declined_retry_reverts [OF dist ed throws retry decline, of "[]"] act calls
  have "\<exists>s'. onSaveChanges editing_model
              [Round (Inl (GQLError ''denied'' (Some ''stack''))) True, Round (Inr short_response) False] = Some s'
         \<and> tableEditor s' = []
         \<and> tableDataModel s' = tableDataModel editing_model
         \<and> grid_calls s' = [Call_updateRowValue 0 [''a''], Call_updateRowValue 2 [''c'']]"
    by auto
  with dist ed throws retry decline show ?thesis by simp
qed

subsection \<open>Rows that do not match the diffs\<close>

text \<open>
  C1, as amended. For every save attempt in which the save collaborator returns a rows array
  whose length differs from the diff array's length, \<open>trySaveChanges\<close> throws the error
  \<open>expected that new rows have same length as diff\<close> before any write: the store, the
  pending-edit set, status and duration, the error state and the calls to the grid widget are
  as before the attempt, and the loader flag is off. The commit cycle catches this error as
  it catches a rejected save: it runs exactly as if the save had been rejected with that
  error, opens the retry dialog with the generic message and no details, and then saves again
  or reverts as the user decides.
\<close>

theorem length_mismatch_handled_as_failure:
  assumes "length (res_rows data) \<noteq> length diffs"
  shows "trySaveChanges s diffs (Inr data) =
           (s\<lparr>isLoaderVisible := False,
              collaborator_calls := collaborator_calls s @ [Call_saveChanges diffs]\<rparr>,
            Some (Error ''Error'' ''expected that new rows have same length as diff''))
    \<and> save_loop diffs s (Round (Inr data) answer # script) =
        save_loop diffs s
          (Round (Inl (Error ''Error'' ''expected that new rows have same length as diff'')) answer # script)
    \<and> save_loop diffs s (Round (Inr data) answer # script) =
        (if answer
         then save_loop diffs
                (s\<lparr>isLoaderVisible := False,
                   collaborator_calls := collaborator_calls s @
                     [Call_saveChanges diffs,
                      Call_open_ErrorDialog ''Error: expected that new rows have same length as diff'' False]\<rparr>)
                script
         else Some (revertChanges
                (s\<lparr>isLoaderVisible := False,
                   collaborator_calls := collaborator_calls s @
                     [Call_saveChanges diffs,
                      Call_open_ErrorDialog ''Error: expected that new rows have same length as diff'' False]\<rparr>)
                diffs))"
proof -
  have a: "round_throws diffs (Round (Inr data) answer)"
    using assms by (auto simp: round_throws_def)
  have b: "round_throws diffs (Round (Inl length_mismatch) answer)"
    by (simp add: round_throws_def)
  note t1 = trySave_throws [OF a, of s] and t2 = trySave_throws [OF b, of s]
  have one: "trySaveChanges s diffs (Inr data) =
           (s\<lparr>isLoaderVisible := False,
              collaborator_calls := collaborator_calls s @ [Call_saveChanges diffs]\<rparr>,
            Some (Error ''Error'' ''expected that new rows have same length as diff''))"
    using t1 by (simp add: length_mismatch_def)
  have two: "save_loop diffs s (Round (Inr data) answer # script) =
        save_loop diffs s
          (Round (Inl (Error ''Error'' ''expected that new rows have same length as diff'')) answer # script)"
    using t1 t2 by (simp add: length_mismatch_def)
  have three: "save_loop diffs s (Round (Inr data) answer # script) =
        (if answer
         then save_loop diffs
                (s\<lparr>isLoaderVisible := False,
                   collaborator_calls := collaborator_calls s @
                     [Call_saveChanges diffs,
                      Call_open_ErrorDialog ''Error: expected that new rows have same length as diff'' False]\<rparr>)
                script
         else Some (revertChanges
                (s\<lparr>isLoaderVisible := False,
                   collaborator_calls := collaborator_calls s @
                     [Call_saveChanges diffs,
                      Call_open_ErrorDialog ''Error: expected that new rows have same length as diff'' False]\<rparr>)
                diffs))"
    using t1 by (simp add: length_mismatch_def open_ErrorDialog_def after_ErrorDialog_def)
  from one two three show ?thesis by blast
qed

theorem length_mismatch_handled_as_failure_witness:
  "length (res_rows short_response) \<noteq> length example_diffs
   \<and> save_loop example_diffs editing_model [Round (Inr short_response) True] =
       save_loop example_diffs editing_model [Round (Inl length_mismatch) True]"
proof -
  have ne: "length (res_rows short_response) \<noteq> length example_diffs"
    by (simp add: short_response_def example_diffs_def)
  from length_mismatch_handled_as_failure [OF ne, of editing_model True "[]"]
  have "save_loop example_diffs editing_model [Round (Inr short_response) True] =
          save_loop example_diffs editing_model [Round (Inl length_mismatch) True]"
    unfolding length_mismatch_def by blast
  with ne show ?thesis by blast
qed

text \<open>
  C1, as stated, fails: a commit cycle whose first save returns one row for two diffs does
  not abort. It opens the retry dialog, and when the user retries and the second save
  returns two rows, the cycle commits: the store is written and the pending set is cleared.
\<close>

theorem length_mismatch_is_retried:
  "length (res_rows short_response) \<noteq> length (getChanges (tableEditor editing_model))
   \<and> onSaveChanges editing_model [Round (Inr short_response) True, Round (Inr saved_response) False] =
       Some (editing_model
         \<lparr>queryDuration := 5, requestStatusMessage := ''saved'',
          tableDataModel := \<lparr>rows = [Some [''X''], Some [''b''], Some [''Z'']], columns = example_columns\<rparr>,
          tableEditor := [],
          grid_calls := [Call_updateRowValue 0 [''X''], Call_updateRowValue 2 [''Z'']],
          collaborator_calls :=
            [Call_saveChanges example_diffs,
             Call_open_ErrorDialog ''Error: expected that new rows have same length as diff'' False,
             Call_saveChanges example_diffs]\<rparr>)"
  by (simp add: editing_model_eval onSaveChanges_def getChanges_def trySaveChanges_def
      trySaveChanges_begin_def trySaveChanges_resume_def zipDiffAndResults_def
      open_ErrorDialog_def after_ErrorDialog_def updateRows_def updateAgGridRows_def
      call_actions_def clearErrors_def updateInfo_def cancelChanges_def write_row_def
      short_response_def saved_response_def example_diffs_def upt_rec Let_def)

subsection \<open>Fetching\<close>

text \<open>
  C8. For every window \<open>(offset, count)\<close> such that \<open>isChunkLoaded(offset, count)\<close> is true or the
  table is fully loaded, \<open>onRequestData\<close> returns the rows and columns from the store without
  calling the remote fetch, without setting the loader flag, and without changing any state;
  no fetch becomes pending.
\<close>

theorem cache_hit_serves_from_store:
  assumes "isChunkLoaded (tableDataModel s) rowOffset count \<or> isFullyLoaded s"
  shows "onRequestData s rowOffset count outcome =
      (s, Inr \<lparr>data_rows = getChunk (tableDataModel s) rowOffset count,
              data_columns = getColumns (tableDataModel s),
              data_isFullyLoaded = isFullyLoaded s\<rparr>)
    \<and> collaborator_calls (fst (onRequestData s rowOffset count outcome)) = collaborator_calls s
    \<and> isLoaderVisible (fst (onRequestData s rowOffset count outcome)) = isLoaderVisible s
    \<and> step (s, ops) (RequestData rowOffset count) = Some (s, ops)"
  using assms by (auto simp: onRequestData_def onRequestData_cached_def)

theorem cache_hit_serves_from_store_witness:
  "(isChunkLoaded (tableDataModel partial_model) 0 2 \<or> isFullyLoaded partial_model)
   \<and> onRequestData partial_model 0 2 (Inl denied) =
       (partial_model,
        Inr \<lparr>data_rows = [[''a''], [''b'']], data_columns = example_columns, data_isFullyLoaded = False\<rparr>)"
proof -
  have hit: "isChunkLoaded (tableDataModel partial_model) 0 2 \<or> isFullyLoaded partial_model"
    by (simp add: partial_model_eval isChunkLoaded_def upt_rec)
  have chunk: "getChunk (tableDataModel partial_model) 0 2 = [[''a''], [''b'']]"
     "getColumns (tableDataModel partial_model) = example_columns"
     "isFullyLoaded partial_model = False"
    by (simp_all add: partial_model_eval getChunk_def getColumns_def isFullyLoaded_def List.map_filter_def)
  from cache_hit_serves_from_store [OF hit, of "Inl denied" "[]"] hit chunk
  show ?thesis by simp
qed

text \<open>A successful fetch clears the error message and nothing else of the error state.\<close>

lemma success_keeps_error_details:
  "errorMessage (fst (onRequestData_resume s rowOffset (Inr response))) = []
   \<and> hasDetails (fst (onRequestData_resume s rowOffset (Inr response))) = hasDetails s
   \<and> exception (fst (onRequestData_resume s rowOffset (Inr response))) = exception s"
  by (simp add: onRequestData_resume_def insertRows_def clearErrors_def updateInfo_def Let_def)

text \<open>A save attempt, successful or not, leaves \<open>hasDetails\<close> and the stored exception as they
  are.\<close>

lemma save_keeps_error_details:
  "hasDetails (fst (trySaveChanges s diffs outcome)) = hasDetails s
   \<and> exception (fst (trySaveChanges s diffs outcome)) = exception s"
  by (simp add: trySaveChanges_def trySaveChanges_begin_def trySaveChanges_resume_def
      updateAgGridRows_def call_actions_def clearErrors_def updateInfo_def Let_def
      split: sum.splits)

text \<open>
  C2 says that a successful fetch after a failure clears \<open>errorMessage\<close>, \<open>hasDetails\<close> and the
  stored exception. Evaluated: a fetch is rejected with a \<open>GQLError\<close> that has details, then
  the same fetch succeeds. \<open>clearErrors\<close> empties \<open>errorMessage\<close>; \<open>hasDetails\<close> is still true and
  the exception is still stored, so \<open>onShowDetails\<close> opens the details of the old error.
\<close>

theorem stale_error_details_after_success:
  "errorMessage failed_fetch_model = ''denied''
   \<and> hasDetails failed_fetch_model
   \<and> exception failed_fetch_model = Some denied
   \<and> onRequestData failed_fetch_model 2 200 (Inr third_row_response) =
       (failed_fetch_model
          \<lparr>errorMessage := [], queryDuration := 7, requestStatusMessage := ''1 row'', hasMoreRows := False,
           tableDataModel := \<lparr>rows = [Some [''a''], Some [''b''], Some [''c'']], columns = example_columns\<rparr>,
           collaborator_calls := [Call_requestDataAsync 2 200, Call_requestDataAsync 2 200]\<rparr>,
        Inr \<lparr>data_rows = [[''c'']], data_columns = example_columns, data_isFullyLoaded = True\<rparr>)
   \<and> hasDetails (fst (onRequestData failed_fetch_model 2 200 (Inr third_row_response)))
   \<and> exception (fst (onRequestData failed_fetch_model 2 200 (Inr third_row_response))) = Some denied
   \<and> onShowDetails (fst (onRequestData failed_fetch_model 2 200 (Inr third_row_response))) =
       (fst (onRequestData failed_fetch_model 2 200 (Inr third_row_response)))
         \<lparr>collaborator_calls := [Call_requestDataAsync 2 200, Call_requestDataAsync 2 200,
                                  Call_open_ErrorDetailsDialog denied]\<rparr>"
proof -
  have miss: "\<not> isChunkLoaded (tableDataModel failed_fetch_model) 2 200"
    by (rule not_loaded_beyond) (simp_all add: failed_fetch_model_eval partial_model_eval)
  have step: "onRequestData failed_fetch_model 2 200 (Inr third_row_response) =
       (failed_fetch_model
          \<lparr>errorMessage := [], queryDuration := 7, requestStatusMessage := ''1 row'', hasMoreRows := False,
           tableDataModel := \<lparr>rows = [Some [''a''], Some [''b''], Some [''c'']], columns = example_columns\<rparr>,
           collaborator_calls := [Call_requestDataAsync 2 200, Call_requestDataAsync 2 200]\<rparr>,
        Inr \<lparr>data_rows = [[''c'']], data_columns = example_columns, data_isFullyLoaded = True\<rparr>)"
    using miss
    by (simp add: onRequestData_def onRequestData_cached_def isFullyLoaded_def
        onRequestData_begin_def onRequestData_resume_def clearErrors_def Let_def model_defs
        third_row_response_def)
       (simp add: failed_fetch_model_eval partial_model_eval example_columns_def)
  show ?thesis
    by (simp add: step onShowDetails_def) (simp add: failed_fetch_model_eval partial_model_eval)
qed

subsection \<open>The \<open>hasMoreRows\<close> flag\<close>

lemma hasMoreRows_insertRows:
  "hasMoreRows (insertRows s position rs hasMore) =
     (if length (getRows (tableDataModel s)) < position + length rs then hasMore else hasMoreRows s)"
  by (simp add: insertRows_def Let_def)

lemma hasMoreRows_resume:
  "hasMoreRows (fst (onRequestData_resume s rowOffset outcome)) =
     (case outcome of
        Inl e \<Rightarrow> hasMoreRows s
      | Inr response \<Rightarrow>
          if length (getRows (tableDataModel s)) < rowOffset + length (res_rows response)
          then \<not> res_isFullyLoaded response else hasMoreRows s)"
  by (simp add: onRequestData_resume_def Let_def updateInfo_def clearErrors_def showError_def
      hasMoreRows_insertRows split: sum.splits)

lemma onRequestData_begin_fields [simp]:
  "tableDataModel (onRequestData_begin s rowOffset count) = tableDataModel s"
  "hasMoreRows (onRequestData_begin s rowOffset count) = hasMoreRows s"
  by (simp_all add: onRequestData_begin_def)

lemma fullyLoaded_requestWindows:
  "isFullyLoaded s \<Longrightarrow> requestWindows s calls = s"
  by (induction calls arbitrary: s) (auto simp: onRequestData_def onRequestData_cached_def)

text \<open>
  C3. Once \<open>isFullyLoaded\<close> is true, no sequence of \<open>onRequestData\<close> calls makes it false again,
  whatever the remote fetch would answer: every such call is served from the store and
  changes nothing; an explicit \<open>resetData\<close> makes it false. An insertion that does not extend
  past the current row count never changes \<open>hasMoreRows\<close>, and only an extending insertion
  adopts the server's flag; the same holds for a whole fetch, which changes the flag only
  when it misses the cache, succeeds and extends the rows.
\<close>

theorem fully_loaded_stays:
  "(isFullyLoaded s \<longrightarrow> requestWindows s calls = s \<and> isFullyLoaded (requestWindows s calls))
   \<and> isFullyLoaded (resetData s) = False
   \<and> hasMoreRows (insertRows s position rs hasMore) =
        (if length (getRows (tableDataModel s)) < position + length rs then hasMore else hasMoreRows s)
   \<and> hasMoreRows (fst (onRequestData s rowOffset count (Inr response))) =
        (if onRequestData_cached s rowOffset count = None
            \<and> length (getRows (tableDataModel s)) < rowOffset + length (res_rows response)
         then \<not> res_isFullyLoaded response else hasMoreRows s)
   \<and> hasMoreRows (fst (onRequestData s rowOffset count (Inl e))) = hasMoreRows s"
proof -
  have a: "isFullyLoaded s \<longrightarrow> requestWindows s calls = s \<and> isFullyLoaded (requestWindows s calls)"
    by (simp add: fullyLoaded_requestWindows)
  have b: "isFullyLoaded (resetData s) = False"
    by (simp add: isFullyLoaded_def resetData_def Let_def)
  have c: "hasMoreRows (fst (onRequestData s rowOffset count (Inr response))) =
        (if onRequestData_cached s rowOffset count = None
            \<and> length (getRows (tableDataModel s)) < rowOffset + length (res_rows response)
         then \<not> res_isFullyLoaded response else hasMoreRows s)"
    by (cases "onRequestData_cached s rowOffset count")
       (simp_all add: onRequestData_def hasMoreRows_resume)
  have d: "hasMoreRows (fst (onRequestData s rowOffset count (Inl e))) = hasMoreRows s"
    by (cases "onRequestData_cached s rowOffset count")
       (simp_all add: onRequestData_def hasMoreRows_resume)
  from a b c d show ?thesis by (simp add: hasMoreRows_insertRows)
qed

theorem fully_loaded_stays_witness:
  "isFullyLoaded loaded_model
   \<and> isFullyLoaded (requestWindows loaded_model [(3, 200, Inr partial_response), (0, 5, Inl denied)])"
proof -
  have full: "isFullyLoaded loaded_model"
    by (simp add: loaded_model_eval isFullyLoaded_def)
  from fully_loaded_stays [of loaded_model "[(3, 200, Inr partial_response), (0, 5, Inl denied)]"] full
  show ?thesis by blast
qed

text \<open>
  C10. For every successful fetch whose response has no rows, at an offset not beyond the
  current row count, and for construction from an initial state with no rows, \<open>hasMoreRows\<close>
  is left unchanged whatever the response's \<open>isFullyLoaded\<close> flag is: the table does not
  become fully loaded through such a response.
\<close>

theorem empty_response_keeps_hasMoreRows:
  "(rowOffset \<le> length (getRows (tableDataModel s)) \<and> res_rows response = [] \<longrightarrow>
      hasMoreRows (fst (onRequestData s rowOffset count (Inr response))) = hasMoreRows s
      \<and> hasMoreRows (fst (onRequestData_resume s rowOffset (Inr response))) = hasMoreRows s
      \<and> (\<not> isFullyLoaded s \<longrightarrow> \<not> isFullyLoaded (fst (onRequestData s rowOffset count (Inr response)))))
   \<and> (res_rows st = [] \<longrightarrow>
      hasMoreRows (new_TableViewerModel
         \<lparr>initialState = Some st, init_noLoaderWhileRequestingDataAsync = noLoader\<rparr>)
       = hasMoreRows (field_initialisers noLoader)
      \<and> \<not> isFullyLoaded (new_TableViewerModel
         \<lparr>initialState = Some st, init_noLoaderWhileRequestingDataAsync = noLoader\<rparr>))"
proof -
  have fetch: "rowOffset \<le> length (getRows (tableDataModel s)) \<and> res_rows response = [] \<longrightarrow>
      hasMoreRows (fst (onRequestData s rowOffset count (Inr response))) = hasMoreRows s
      \<and> hasMoreRows (fst (onRequestData_resume s rowOffset (Inr response))) = hasMoreRows s"
    by (cases "onRequestData_cached s rowOffset count")
       (auto simp: onRequestData_def hasMoreRows_resume)
  have new: "res_rows st = [] \<longrightarrow>
      hasMoreRows (new_TableViewerModel
         \<lparr>initialState = Some st, init_noLoaderWhileRequestingDataAsync = noLoader\<rparr>)
       = hasMoreRows (field_initialisers noLoader)"
    by (simp add: new_TableViewerModel_def Let_def updateInfo_def hasMoreRows_insertRows)
  have init: "hasMoreRows (field_initialisers noLoader)"
    by (simp add: field_initialisers_def)
  from fetch new init show ?thesis by (auto simp: isFullyLoaded_def)
qed

theorem empty_response_keeps_hasMoreRows_witness:
  "(2 \<le> length (getRows (tableDataModel partial_model)) \<and> res_rows empty_response = [])
   \<and> res_isFullyLoaded empty_response
   \<and> \<not> isFullyLoaded (fst (onRequestData partial_model 2 200 (Inr empty_response)))
   \<and> \<not> isFullyLoaded (new_TableViewerModel
         \<lparr>initialState = Some empty_response, init_noLoaderWhileRequestingDataAsync = False\<rparr>)"
proof -
  have h: "2 \<le> length (getRows (tableDataModel partial_model)) \<and> res_rows empty_response = []"
    by (simp add: partial_model_eval getRows_def empty_response_def)
  have more: "\<not> isFullyLoaded partial_model" "res_isFullyLoaded empty_response"
    by (simp_all add: partial_model_eval isFullyLoaded_def empty_response_def)
  from empty_response_keeps_hasMoreRows [of 2 partial_model empty_response 200 empty_response False] h more
  show ?thesis by blast
qed

subsection \<open>Refresh\<close>

lemma write_rows_from_end:
  "write_rows_from (length xs) rs xs = xs @ map Some rs"
proof (induction rs arbitrary: xs)
  case Nil show ?case by simp
next
  case (Cons r rs)
  have "write_row (length xs) r xs = xs @ [Some r]" by (simp add: write_row_def)
  with Cons.IH [of "xs @ [Some r]"] show ?case by simp
qed

lemma resetData_fields [simp]:
  "requestStatusMessage (resetData s) = []"
  "queryDuration (resetData s) = 0"
  "errorMessage (resetData s) = []"
  "hasMoreRows (resetData s) = True"
  "rows (tableDataModel (resetData s)) = []"
  "columns (tableDataModel (resetData s)) = columns (tableDataModel s)"
  "chunkSize (resetData s) = chunkSize s"
  "tableEditor (resetData s) = tableEditor s"
  "isLoaderVisible (resetData s) = isLoaderVisible s"
  "hasDetails (resetData s) = hasDetails s"
  "exception (resetData s) = exception s"
  "noLoaderWhileRequestingDataAsync (resetData s) = noLoaderWhileRequestingDataAsync s"
  "collaborator_calls (resetData s) = collaborator_calls s"
  "grid_calls (resetData s) = grid_calls s @ (if actions s then [Call_resetData] else [])"
  by (simp_all add: resetData_def store_resetData_def Let_def call_actions_def)

text \<open>What a fetch at offset 0 of an empty store that expects more rows does.\<close>

lemma first_load:
  assumes "rows (tableDataModel s) = []" "hasMoreRows s" "0 < count"
  shows "onRequestData s 0 count outcome =
           onRequestData_resume (onRequestData_begin s 0 count) 0 outcome"
    and "snd (onRequestData s 0 count outcome) =
           (case outcome of
              Inl e \<Rightarrow> Inl e
            | Inr response \<Rightarrow> Inr \<lparr>data_rows = res_rows response, data_columns = res_columns response,
                                  data_isFullyLoaded = res_isFullyLoaded response\<rparr>)"
    and "rows (tableDataModel (fst (onRequestData s 0 count outcome))) =
           (case outcome of Inl e \<Rightarrow> [] | Inr response \<Rightarrow> map Some (res_rows response))"
    and "hasMoreRows (fst (onRequestData s 0 count outcome)) =
           (case outcome of
              Inl e \<Rightarrow> True
            | Inr response \<Rightarrow> if res_rows response = [] then True else \<not> res_isFullyLoaded response)"
    and "errorMessage (fst (onRequestData s 0 count outcome)) =
           (case outcome of
              Inl e \<Rightarrow> if isGQLError e then errorText e else name e @ '': '' @ message e
            | Inr response \<Rightarrow> [])"
    and "requestStatusMessage (fst (onRequestData s 0 count outcome)) =
           (case outcome of Inl e \<Rightarrow> requestStatusMessage s | Inr response \<Rightarrow> res_statusMessage response)"
    and "queryDuration (fst (onRequestData s 0 count outcome)) =
           (case outcome of
              Inl e \<Rightarrow> queryDuration s
            | Inr response \<Rightarrow> (case res_duration response of None \<Rightarrow> 0 | Some d \<Rightarrow> d))"
    and "isLoaderVisible (fst (onRequestData s 0 count outcome)) = False"
    and "collaborator_calls (fst (onRequestData s 0 count outcome)) =
           collaborator_calls s @ [Call_requestDataAsync 0 count]"
proof -
  have miss: "onRequestData_cached s 0 count = None"
    using assms not_loaded_beyond [of count "tableDataModel s" 0]
    by (simp add: onRequestData_cached_def isFullyLoaded_def)
  then show one: "onRequestData s 0 count outcome =
           onRequestData_resume (onRequestData_begin s 0 count) 0 outcome"
    by (simp add: onRequestData_def)
  have w: "write_rows_from 0 rs [] = map Some rs" for rs :: "TableRow list"
    using write_rows_from_end [of "[]" rs] by simp
  show "snd (onRequestData s 0 count outcome) =
           (case outcome of
              Inl e \<Rightarrow> Inl e
            | Inr response \<Rightarrow> Inr \<lparr>data_rows = res_rows response, data_columns = res_columns response,
                                  data_isFullyLoaded = res_isFullyLoaded response\<rparr>)"
    by (simp add: one onRequestData_resume_def Let_def split: sum.splits)
  show "rows (tableDataModel (fst (onRequestData s 0 count outcome))) =
           (case outcome of Inl e \<Rightarrow> [] | Inr response \<Rightarrow> map Some (res_rows response))"
    using assms(1)
    by (simp add: one onRequestData_resume_def onRequestData_begin_def Let_def showError_def
        insertRows_def store_insertRows_def overWrite_def clearErrors_def updateInfo_def w
        split: sum.splits)
  show "hasMoreRows (fst (onRequestData s 0 count outcome)) =
           (case outcome of
              Inl e \<Rightarrow> True
            | Inr response \<Rightarrow> if res_rows response = [] then True else \<not> res_isFullyLoaded response)"
    using assms(1,2)
    by (simp add: one hasMoreRows_resume getRows_def split: sum.splits)
  show "errorMessage (fst (onRequestData s 0 count outcome)) =
           (case outcome of
              Inl e \<Rightarrow> if isGQLError e then errorText e else name e @ '': '' @ message e
            | Inr response \<Rightarrow> [])"
    by (simp add: one onRequestData_resume_def Let_def showError_def
        clearErrors_def updateInfo_def split: sum.splits)
  show "requestStatusMessage (fst (onRequestData s 0 count outcome)) =
           (case outcome of Inl e \<Rightarrow> requestStatusMessage s | Inr response \<Rightarrow> res_statusMessage response)"
    by (simp add: one onRequestData_resume_def onRequestData_begin_def Let_def showError_def
        clearErrors_def updateInfo_def split: sum.splits)
  show "queryDuration (fst (onRequestData s 0 count outcome)) =
           (case outcome of
              Inl e \<Rightarrow> queryDuration s
            | Inr response \<Rightarrow> (case res_duration response of None \<Rightarrow> 0 | Some d \<Rightarrow> d))"
    by (simp add: one onRequestData_resume_def onRequestData_begin_def Let_def showError_def
        clearErrors_def updateInfo_def split: sum.splits)
  show "isLoaderVisible (fst (onRequestData s 0 count outcome)) = False"
    by (simp add: one onRequestData_resume_def Let_def split: sum.splits)
  show "collaborator_calls (fst (onRequestData s 0 count outcome)) =
           collaborator_calls s @ [Call_requestDataAsync 0 count]"
    by (simp add: one onRequestData_resume_def onRequestData_begin_def Let_def showError_def
        insertRows_def clearErrors_def updateInfo_def split: sum.splits)
qed

text \<open>
  C7, as amended. After \<open>resetData()\<close> the status message and the error message are empty, the
  duration is 0, \<open>hasMoreRows\<close> is true and the rows of the store are cleared; the columns,
  the chunk size, the pending edits and the loader flag are as before. The next
  \<open>onRequestData(0, count)\<close> with \<open>count > 0\<close> misses the cache and calls the remote fetch, and
  it returns the same answer and leaves the same rows, \<open>hasMoreRows\<close>, status, duration, error
  message and loader flag as the same call on a newly constructed model.
\<close>

theorem resetData_then_first_load:
  "requestStatusMessage (resetData s) = [] \<and> queryDuration (resetData s) = 0
   \<and> errorMessage (resetData s) = [] \<and> hasMoreRows (resetData s)
   \<and> rows (tableDataModel (resetData s)) = [] \<and> isEmpty (resetData s)
   \<and> columns (tableDataModel (resetData s)) = columns (tableDataModel s)
   \<and> chunkSize (resetData s) = chunkSize s
   \<and> tableEditor (resetData s) = tableEditor s
   \<and> isLoaderVisible (resetData s) = isLoaderVisible s
   \<and> (0 < count \<longrightarrow>
        (let again = onRequestData (resetData s) 0 count outcome;
             first = onRequestData
                       (new_TableViewerModel \<lparr>initialState = None, init_noLoaderWhileRequestingDataAsync = b\<rparr>)
                       0 count outcome
         in snd again = snd first
            \<and> rows (tableDataModel (fst again)) = rows (tableDataModel (fst first))
            \<and> hasMoreRows (fst again) = hasMoreRows (fst first)
            \<and> requestStatusMessage (fst again) = requestStatusMessage (fst first)
            \<and> queryDuration (fst again) = queryDuration (fst first)
            \<and> errorMessage (fst again) = errorMessage (fst first)
            \<and> isLoaderVisible (fst again) = isLoaderVisible (fst first)
            \<and> collaborator_calls (fst again) = collaborator_calls s @ [Call_requestDataAsync 0 count]))"
proof -
  let ?new = "new_TableViewerModel \<lparr>initialState = None, init_noLoaderWhileRequestingDataAsync = b\<rparr>"
  have new: "rows (tableDataModel ?new) = []" "hasMoreRows ?new"
     "requestStatusMessage ?new = []" "queryDuration ?new = 0"
    by (simp_all add: new_TableViewerModel_def field_initialisers_def empty_TableDataModel_def)
  have reset: "rows (tableDataModel (resetData s)) = []" "hasMoreRows (resetData s)"
    by simp_all
  have load: "0 < count \<longrightarrow>
        (let again = onRequestData (resetData s) 0 count outcome;
             first = onRequestData ?new 0 count outcome
         in snd again = snd first
            \<and> rows (tableDataModel (fst again)) = rows (tableDataModel (fst first))
            \<and> hasMoreRows (fst again) = hasMoreRows (fst first)
            \<and> requestStatusMessage (fst again) = requestStatusMessage (fst first)
            \<and> queryDuration (fst again) = queryDuration (fst first)
            \<and> errorMessage (fst again) = errorMessage (fst first)
            \<and> isLoaderVisible (fst again) = isLoaderVisible (fst first)
            \<and> collaborator_calls (fst again) = collaborator_calls s @ [Call_requestDataAsync 0 count])"
  proof
    assume c: "0 < count"
    note a = first_load [OF reset c, of outcome] and f = first_load [OF new(1,2) c, of outcome]
    show "let again = onRequestData (resetData s) 0 count outcome;
             first = onRequestData ?new 0 count outcome
         in snd again = snd first
            \<and> rows (tableDataModel (fst again)) = rows (tableDataModel (fst first))
            \<and> hasMoreRows (fst again) = hasMoreRows (fst first)
            \<and> requestStatusMessage (fst again) = requestStatusMessage (fst first)
            \<and> queryDuration (fst again) = queryDuration (fst first)
            \<and> errorMessage (fst again) = errorMessage (fst first)
            \<and> isLoaderVisible (fst again) = isLoaderVisible (fst first)
            \<and> collaborator_calls (fst again) = collaborator_calls s @ [Call_requestDataAsync 0 count]"
      unfolding Let_def
      by (simp only: a(2-9) f(2-8) new(3,4) resetData_fields simp_thms)
  qed
  have "isEmpty (resetData s)" by (simp add: isEmpty_def store_isEmpty_def)
  with load show ?thesis by simp
qed

theorem resetData_then_first_load_witness:
  "(0::nat) < 200
   \<and> hasDetails (resetData failed_fetch_model)
   \<and> snd (onRequestData (resetData failed_fetch_model) 0 200 (Inr other_response))
       = snd (onRequestData fresh_model 0 200 (Inr other_response))
   \<and> rows (tableDataModel (fst (onRequestData (resetData failed_fetch_model) 0 200 (Inr other_response))))
       = rows (tableDataModel (fst (onRequestData fresh_model 0 200 (Inr other_response))))"
proof -
  have pos: "(0::nat) < 200" by simp
  have d: "hasDetails (resetData failed_fetch_model)"
    by (simp add: failed_fetch_model_eval)
  from resetData_then_first_load [of failed_fetch_model 200 "Inr other_response" False] pos d
  show ?thesis unfolding Let_def fresh_model_def by blast
qed

text \<open>
  C7, as stated, fails: \<open>resetData()\<close> does not bring the session state back to its initial
  values, since the chunk size set before is kept; and the next load is not that of a new
  model, since the store keeps its columns and a load adopts the response's columns only
  when the store has none.
\<close>

theorem resetData_not_initial_state:
  "session_state (resetData (setChunkSize fresh_model 500)) \<noteq> session_state fresh_model
   \<and> columns (tableDataModel (fst (onRequestData (resetData loaded_model) 0 200 (Inr other_response))))
       = example_columns
   \<and> columns (tableDataModel (fst (onRequestData fresh_model 0 200 (Inr other_response))))
       = other_columns
   \<and> example_columns \<noteq> other_columns"
proof -
  have a: "session_state (resetData (setChunkSize fresh_model 500)) \<noteq> session_state fresh_model"
    by (simp add: session_state_def setChunkSize_def updateChunkSize_def Let_def
        getDefaultRowsCount_def fetchMin_def fetchMax_def call_actions_def)
       (simp add: fresh_model_eval)
  have l1: "onRequestData (resetData loaded_model) 0 200 (Inr other_response) =
          onRequestData_resume (onRequestData_begin (resetData loaded_model) 0 200) 0 (Inr other_response)"
    by (rule first_load(1)) simp_all
  have l2: "onRequestData fresh_model 0 200 (Inr other_response) =
          onRequestData_resume (onRequestData_begin fresh_model 0 200) 0 (Inr other_response)"
    by (rule first_load(1)) (simp_all add: fresh_model_eval)
  have b: "columns (tableDataModel (fst (onRequestData (resetData loaded_model) 0 200 (Inr other_response))))
       = example_columns"
    by (simp add: l1 onRequestData_resume_def onRequestData_begin_def insertRows_def store_insertRows_def
        getColumns_def clearErrors_def updateInfo_def Let_def)
       (simp add: loaded_model_eval example_columns_def)
  have c: "columns (tableDataModel (fst (onRequestData fresh_model 0 200 (Inr other_response))))
       = other_columns"
    by (simp add: l2 onRequestData_resume_def onRequestData_begin_def insertRows_def store_insertRows_def
        getColumns_def clearErrors_def updateInfo_def overWrite_def Let_def)
       (simp add: fresh_model_eval other_response_def)
  have d: "example_columns \<noteq> other_columns"
    by (simp add: example_columns_def other_columns_def)
  from a b c d show ?thesis by blast
qed

subsection \<open>The loader flag\<close>

lemma loader_after_resume [simp]:
  "isLoaderVisible (fst (onRequestData_resume s rowOffset outcome)) = False"
  by (simp add: onRequestData_resume_def Let_def split: sum.splits)

lemma loader_after_save [simp]:
  "isLoaderVisible (fst (trySaveChanges_resume s diffs outcome)) = False"
  by (simp add: trySaveChanges_resume_def Let_def split: sum.splits)

lemma loader_kept [simp]:
  "isLoaderVisible (open_ErrorDialog s e) = isLoaderVisible s"
  "isLoaderVisible (revertChanges s diffs) = isLoaderVisible s"
  "isLoaderVisible (onEditCancel s) = isLoaderVisible s"
  "isLoaderVisible (handleRefresh s) = isLoaderVisible s"
  "isLoaderVisible (setChunkSize s count) = isLoaderVisible s"
  "isLoaderVisible (onShowDetails s) = isLoaderVisible s"
  "isLoaderVisible (cancelFetch s) = isLoaderVisible s"
  "isLoaderVisible (attach_actions s) = isLoaderVisible s"
  "isLoaderVisible (onCellEditingStopped s rowNumber colNumber v) = isLoaderVisible s"
  by (simp_all add: open_ErrorDialog_def revertChanges_def onEditCancel_def handleRefresh_def
      setChunkSize_def updateChunkSize_def onShowDetails_def attach_actions_def cancelFetch_def
      onCellEditingStopped_def updateAgGridRows_def Let_def split: option.splits)

lemma loader_new [simp]: "isLoaderVisible (new_TableViewerModel init) = False"
  by (simp add: new_TableViewerModel_def field_initialisers_def insertRows_def updateInfo_def Let_def
      split: option.splits)

lemma remote_remove1:
  "op \<in> set ops \<Longrightarrow> is_remote op \<Longrightarrow> \<not> is_remote x \<Longrightarrow> op \<in> set (remove1 x ops)"
  by (cases "op = x") auto

lemma step_loader_inv:
  assumes "loader_inv c" and "step c ev = Some c'"
  shows "loader_inv c'"
proof -
  obtain s ops where c: "c = (s, ops)" by (cases c)
  show ?thesis
  proof (cases ev)
    case (RequestData rowOffset count)
    with assms c show ?thesis
      by (auto simp: loader_inv_def split: option.splits)
  next
    case (FetchAnswers rowOffset count outcome)
    with assms c show ?thesis
      by (auto simp: loader_inv_def split: if_splits)
  next
    case EditSave
    with assms c show ?thesis
      by (auto simp: loader_inv_def Let_def split: if_splits)
  next
    case (SaveAnswers diffs outcome)
    have "isLoaderVisible (fst (trySaveChanges_resume s diffs outcome)) = False" by simp
    with assms c SaveAnswers show ?thesis
      by (cases "trySaveChanges_resume s diffs outcome")
         (auto simp: loader_inv_def split: if_splits option.splits)
  next
    case (DialogAnswers diffs tryAgain)
    show ?thesis
    proof (cases tryAgain)
      case True
      with assms c DialogAnswers show ?thesis
        by (auto simp: loader_inv_def after_ErrorDialog_def split: if_splits)
    next
      case False
      with assms c DialogAnswers
      have c': "c' = (revertChanges s diffs, remove1 (AwaitingUserDecision diffs) ops)"
        by (auto simp: after_ErrorDialog_def split: if_splits)
      have "\<exists>op\<in>set (remove1 (AwaitingUserDecision diffs) ops). is_remote op"
        if "isLoaderVisible s"
      proof -
        from that assms(1) c obtain op where "op \<in> set ops" "is_remote op"
          by (auto simp: loader_inv_def)
        then have "op \<in> set (remove1 (AwaitingUserDecision diffs) ops)"
          by (rule remote_remove1) simp
        with \<open>is_remote op\<close> show ?thesis by blast
      qed
      then show ?thesis by (simp add: c' loader_inv_def)
    qed
  qed (use assms c in \<open>auto simp: loader_inv_def\<close>)
qed

lemma run_loader_inv:
  "loader_inv c \<Longrightarrow> run c evs = Some c' \<Longrightarrow> loader_inv c'"
proof (induction evs arbitrary: c)
  case Nil
  then show ?case by simp
next
  case (Cons ev evs)
  then show ?case
    by (auto split: option.splits dest: step_loader_inv)
qed

text \<open>
  C6. \<open>isLoaderVisible\<close> is true only between the start and the end of a remote fetch or of a
  single remote save attempt: in every state the machine reaches from a new model, by any
  sequence of handler calls and collaborator answers, the flag is on only if a fetch or a
  save attempt is pending. It is off on every exit of a fetch and of a save attempt, whether
  the answer is a result or an error, and it is off when the retry dialog is opened.
\<close>

theorem loader_flag_discipline:
  assumes "run (new_TableViewerModel init, []) evs = Some (s, ops)"
  shows "(isLoaderVisible s \<longrightarrow> (\<exists>op\<in>set ops. is_remote op))
    \<and> \<not> isLoaderVisible (fst (onRequestData_resume s rowOffset fetched))
    \<and> \<not> isLoaderVisible (fst (trySaveChanges_resume s diffs saved))
    \<and> \<not> isLoaderVisible (open_ErrorDialog (fst (trySaveChanges_resume s diffs saved)) e)"
proof -
  have "loader_inv (new_TableViewerModel init, [])"
    by (simp add: loader_inv_def)
  from run_loader_inv [OF this assms] show ?thesis
    by (simp add: loader_inv_def)
qed

theorem loader_flag_discipline_witness:
  "run (new_TableViewerModel partial_init, []) [RequestData 2 200] =
      Some (onRequestData_begin (new_TableViewerModel partial_init) 2 200, [Fetching 2 200])
   \<and> isLoaderVisible (onRequestData_begin (new_TableViewerModel partial_init) 2 200)
   \<and> (\<exists>op\<in>set [Fetching 2 200]. is_remote op)
   \<and> \<not> isLoaderVisible (fst (onRequestData_resume
           (onRequestData_begin (new_TableViewerModel partial_init) 2 200) 2 (Inl denied)))"
proof -
  have rows: "rows (tableDataModel (new_TableViewerModel partial_init)) = [Some [''a''], Some [''b'']]"
    and more: "hasMoreRows (new_TableViewerModel partial_init)"
    and nl: "\<not> noLoaderWhileRequestingDataAsync (new_TableViewerModel partial_init)"
    by (simp_all add: partial_init_def partial_response_def model_defs Let_def)
  have "\<not> isChunkLoaded (tableDataModel (new_TableViewerModel partial_init)) 2 200"
    by (rule not_loaded_beyond) (simp_all add: rows)
  with more have r: "run (new_TableViewerModel partial_init, []) [RequestData 2 200] =
      Some (onRequestData_begin (new_TableViewerModel partial_init) 2 200, [Fetching 2 200])"
    by (simp add: onRequestData_cached_def isFullyLoaded_def)
  have on: "isLoaderVisible (onRequestData_begin (new_TableViewerModel partial_init) 2 200)"
    using nl by (simp add: onRequestData_begin_def)
  from loader_flag_discipline [OF r, of 2 "Inl denied"] r on
  show ?thesis by blast
qed

subsection \<open>Chunk size\<close>

lemma chunkSize_call_actions: "chunkSize (call_actions cs s) = chunkSize s"
  by (simp add: call_actions_def)

text \<open>
  C9. For every integer \<open>c\<close>, \<open>setChunkSize(c)\<close> sets the chunk size to \<open>fetchDefault\<close> (200)
  when \<open>c\<close> is zero, and otherwise to \<open>c\<close> clamped into \<open>[fetchMin, fetchMax]\<close>, that is
  \<open>max 1 (min c 5000)\<close>; an unset count yields \<open>fetchDefault\<close> too.
\<close>

theorem setChunkSize_clamps:
  "getChunkSize (setChunkSize s c) = (if c = 0 then 200 else max 1 (min c 5000))
   \<and> getDefaultRowsCount None = 200
   \<and> 1 \<le> getChunkSize (setChunkSize s c) \<and> getChunkSize (setChunkSize s c) \<le> 5000"
  by (simp add: getChunkSize_def setChunkSize_def updateChunkSize_def Let_def
      chunkSize_call_actions getDefaultRowsCount_def fetchMin_def fetchMax_def fetchDefault_def)

theorem setChunkSize_clamps_witness:
  "getChunkSize (setChunkSize fresh_model 7000) = 5000
   \<and> getChunkSize (setChunkSize fresh_model 0) = 200
   \<and> getChunkSize (setChunkSize fresh_model (- 3)) = 1
   \<and> getChunkSize (setChunkSize fresh_model 350) = 350"
  using setChunkSize_clamps [of fresh_model 7000] setChunkSize_clamps [of fresh_model 0]
    setChunkSize_clamps [of fresh_model "- 3"] setChunkSize_clamps [of fresh_model 350]
  by simp

end
